theory Spec2Isabelle
  imports Complex_Main "HOL-Library.Word"
begin

unbundle bit_operations_syntax

section \<open>Machine types\<close>

text \<open>
  \<open>uint8_t\<close>, \<open>uint16_t\<close> and \<open>uint32_t\<close> are words; \<open>unsigned long\<close> is 32 bits wide on
  the Arduino targets of the library (AVR, ESP8266), so \<open>millis()\<close> and \<open>timeoutTime\<close>
  are 32-bit words and \<open>millis() + timeoutTime\<close> wraps modulo \<open>2 ^ 32\<close>. An \<open>int16_t\<close> is
  a 16-bit word read through \<open>sint\<close>.
\<close>

type_synonym u8 = "8 word"
type_synonym u16 = "16 word"
type_synonym u32 = "32 word"

text \<open>\<open>sizeof(DATATYPE)\<close> of the template parameter, for a register word of type \<open>'a word\<close>.\<close>

definition sizeof :: "'a::len word \<Rightarrow> nat" where
  "sizeof d = LENGTH('a) div 8"

section \<open>The platform: two-wire bus and clock\<close>

text \<open>
  The \<open>Wire\<close> object, \<open>millis()\<close> and \<open>delayMicroseconds()\<close> belong to the Arduino
  platform, not to this library. They are a parameter of the model: a record of the
  primitives the library calls, each a transformer of a platform state \<open>'w\<close>.
  \<^item> \<open>t_begin_transmission a\<close>: \<open>Wire.beginTransmission(a)\<close>;
  \<^item> \<open>t_write b\<close>: \<open>Wire.write(b)\<close> of one byte (the returned count is never used);
  \<^item> \<open>t_end_transmission stop\<close>: \<open>Wire.endTransmission(stop)\<close>, returning the status;
  \<^item> \<open>t_request_from a n\<close>: \<open>Wire.requestFrom(a, n)\<close> (the returned count is never used);
  \<^item> \<open>t_available\<close>: \<open>Wire.available()\<close>, a count of readable bytes;
  \<^item> \<open>t_read\<close>: \<open>Wire.read()\<close>, an \<open>int\<close>: a byte, or \<open>-1\<close> when nothing is readable;
  \<^item> \<open>t_millis\<close>: \<open>millis()\<close>;
  \<^item> \<open>t_delay_us n\<close>: \<open>delayMicroseconds(n)\<close>.
  Every primitive may change the platform state, so a clock that advances and bytes
  that arrive between two polls are instances.
\<close>

record 'w transport =
  t_begin_transmission :: "u8 \<Rightarrow> 'w \<Rightarrow> 'w"
  t_write :: "u8 \<Rightarrow> 'w \<Rightarrow> 'w"
  t_end_transmission :: "bool \<Rightarrow> 'w \<Rightarrow> u8 \<times> 'w"
  t_request_from :: "u8 \<Rightarrow> u8 \<Rightarrow> 'w \<Rightarrow> 'w"
  t_available :: "'w \<Rightarrow> nat \<times> 'w"
  t_read :: "'w \<Rightarrow> int \<times> 'w"
  t_millis :: "'w \<Rightarrow> u32 \<times> 'w"
  t_delay_us :: "u32 \<Rightarrow> 'w \<Rightarrow> 'w"

section \<open>wireUtil: the register access engine\<close>

text \<open>
  A handler is a function pointer: \<open>None\<close> is \<open>NULL\<close>, \<open>Some h\<close> the function \<open>h\<close>.
  Calling a handler is recorded in the log \<open>calls\<close> of the object, the newest call last;
  the log is the only field that is not a member of the C++ class.
\<close>

datatype handler_call = TimeoutCall nat | ErrorCall nat u8

record wireUtil =
  address :: u8
  timeoutTime :: u32
  timeoutFlag :: bool
  timeOutHandler :: "nat option"
  errorHandler :: "nat option"
  calls :: "handler_call list"

definition attachTimeoutHandler :: "nat option \<Rightarrow> 's wireUtil_scheme \<Rightarrow> 's wireUtil_scheme" where
  "attachTimeoutHandler h s = s\<lparr>timeOutHandler := h\<rparr>"

definition attachErrorHandler :: "nat option \<Rightarrow> 's wireUtil_scheme \<Rightarrow> 's wireUtil_scheme" where
  "attachErrorHandler h s = s\<lparr>errorHandler := h\<rparr>"

definition getTimeoutFlag :: "'s wireUtil_scheme \<Rightarrow> bool" where
  "getTimeoutFlag s = timeoutFlag s"

subsection \<open>writeAsBytes and readAsBytes\<close>

text \<open>
  The local array \<open>buffer\<close> of \<open>writeAsBytes\<close> after the \<open>switch\<close>, index 0 first.
  The \<open>default\<close> branch zero-fills it.
\<close>

definition writeAsBytes_buffer :: "'a::len word \<Rightarrow> u8 list" where
  "writeAsBytes_buffer d =
    (if sizeof d = 4 then
       (let b3 = ucast (d AND 0xFF); d1 = drop_bit 8 d;
            b2 = ucast (d1 AND 0xFF); d2 = drop_bit 8 d1;
            b1 = ucast (d2 AND 0xFF); d3 = drop_bit 8 d2;
            b0 = ucast (d3 AND 0xFF)
        in [b0, b1, b2, b3])
     else if sizeof d = 2 then
       (let b1 = ucast (d AND 0xFF);
            b0 = ucast (drop_bit 8 d AND 0xFF)
        in [b0, b1])
     else if sizeof d = 1 then [ucast d]
     else replicate (sizeof d) 0)"

text \<open>\<open>Wire.write(buffer, sizeof(DATATYPE))\<close> writes the bytes of the array in index order.\<close>

definition writeAsBytes :: "'w transport \<Rightarrow> 'a::len word \<Rightarrow> 'w \<Rightarrow> 'w" where
  "writeAsBytes T d w = fold (t_write T) (writeAsBytes_buffer d) w"

text \<open>
  \<open>readAsBytes\<close>: each \<open>Wire.read()\<close> is an \<open>int\<close> converted to the unsigned type of the
  cast, so the \<open>-1\<close> of an empty receive buffer becomes the all-ones word.
\<close>

definition readAsBytes :: "'w transport \<Rightarrow> 'w \<Rightarrow> 'a::len word \<times> 'w" where
  "readAsBytes T w =
    (if sizeof (0 :: 'a word) = 4 then
       (let r0 = t_read T w;
            d0 = ucast (push_bit 24 (word_of_int (fst r0) :: u32)) :: 'a word;
            r1 = t_read T (snd r0);
            d1 = d0 OR ucast (push_bit 16 (word_of_int (fst r1) :: u32));
            r2 = t_read T (snd r1);
            d2 = d1 OR ucast (push_bit 8 (word_of_int (fst r2) :: u32));
            r3 = t_read T (snd r2);
            d3 = d2 OR ucast (word_of_int (fst r3) :: u32)
        in (d3, snd r3))
     else if sizeof (0 :: 'a word) = 2 then
       (let r0 = t_read T w;
            d0 = ucast (push_bit 8 (word_of_int (fst r0) :: u16)) :: 'a word;
            r1 = t_read T (snd r0);
            d1 = d0 OR ucast (word_of_int (fst r1) :: u16)
        in (d1, snd r1))
     else if sizeof (0 :: 'a word) = 1 then
       (let r0 = t_read T w in (ucast (word_of_int (fst r0) :: u8), snd r0))
     else (0, w))"

subsection \<open>writeRegister and writeRegisters\<close>

text \<open>
  Lines 128 to 134 of \<open>writeRegisters\<close>: the transaction is opened, the register address
  is written, then each of the first \<open>len\<close> words of \<open>buffer\<close>: one byte when
  \<open>sizeof(DATATYPE) == 1\<close>, through \<open>writeAsBytes\<close> otherwise. C++ leaves a \<open>len\<close>
  beyond the array undefined; the model stops at the end of the list.
\<close>

definition writeRegisters_fill ::
  "'w transport \<Rightarrow> u8 \<Rightarrow> u8 \<Rightarrow> 'a::len word list \<Rightarrow> u8 \<Rightarrow> 'w \<Rightarrow> 'w" where
  "writeRegisters_fill T a reg buffer len w =
    fold (\<lambda>d. if sizeof d = 1 then t_write T (ucast d) else writeAsBytes T d)
      (take (unat len) buffer)
      (t_write T reg (t_begin_transmission T a w))"

text \<open>
  Lines 136 to 144: \<open>Wire.endTransmission()\<close> (with the stop condition, its default),
  then the three exits. The result is the returned \<open>bool\<close> with the object and the
  platform state afterwards.
\<close>

definition writeRegisters ::
  "'w transport \<Rightarrow> u8 \<Rightarrow> 'a::len word list \<Rightarrow> u8 \<Rightarrow> 's wireUtil_scheme \<times> 'w
    \<Rightarrow> bool \<times> 's wireUtil_scheme \<times> 'w" where
  "writeRegisters T reg buffer len sw =
    (let s = fst sw;
         e = t_end_transmission T True (writeRegisters_fill T (address s) reg buffer len (snd sw));
         status = fst e
     in if status = 0 then (True, s, snd e)
        else (case errorHandler s of
                Some h \<Rightarrow> (False, s\<lparr>calls := calls s @ [ErrorCall h status]\<rparr>, snd e)
              | None \<Rightarrow> (False, s, snd e)))"

definition writeRegister ::
  "'w transport \<Rightarrow> u8 \<Rightarrow> 'a::len word \<Rightarrow> 's wireUtil_scheme \<times> 'w
    \<Rightarrow> bool \<times> 's wireUtil_scheme \<times> 'w" where
  "writeRegister T reg data sw = writeRegisters T reg [data] 1 sw"

subsection \<open>The polling loop\<close>

text \<open>
  The loops of \<open>readRegister\<close> (lines 164 to 172) and of \<open>readRegisters\<close> (lines 199 to
  207) differ in their condition only: \<open>!Wire.available()\<close> and
  \<open>Wire.available() < bufferSize\<close>. \<open>waiting\<close> is that condition, as a test of the count
  \<open>Wire.available()\<close> returns. Each round asks \<open>Wire.available()\<close> and, while waiting,
  \<open>millis()\<close>; the timeout branch is taken when \<open>abortTime < millis()\<close>. The result is
  \<open>Some (True, w)\<close> when the loop is left with data, \<open>Some (False, w)\<close> when the timeout
  branch is taken, and \<open>None\<close> when the loop runs forever.
\<close>

partial_function (option) waitAvailable ::
  "'w transport \<Rightarrow> (nat \<Rightarrow> bool) \<Rightarrow> u32 \<Rightarrow> 'w \<Rightarrow> (bool \<times> 'w) option" where
  "waitAvailable T waiting abortTime w =
    (let a = t_available T w in
     if waiting (fst a) then
       (let m = t_millis T (snd a) in
        if abortTime < fst m then Some (False, snd m)
        else waitAvailable T waiting abortTime (snd m))
     else Some (True, snd a))"

text \<open>The body of the timeout branch: the flag is set and the handler, if any, is called.\<close>

definition timedOut :: "'s wireUtil_scheme \<Rightarrow> 's wireUtil_scheme" where
  "timedOut s =
    (case timeOutHandler s of
       Some h \<Rightarrow> s\<lparr>timeoutFlag := True, calls := calls s @ [TimeoutCall h]\<rparr>
     | None \<Rightarrow> s\<lparr>timeoutFlag := True\<rparr>)"

subsection \<open>readRegister\<close>

text \<open>
  Lines 157 to 163: the address is written with the transaction kept open, \<open>n\<close> bytes are
  requested (\<open>n\<close> is \<open>(uint8_t) sizeof(DATATYPE)\<close>), the flag is reset and the deadline
  \<open>abortTime\<close> is computed. The result is the deadline with the object and the platform
  state when polling begins.
\<close>

definition readRegister_start ::
  "'w transport \<Rightarrow> u8 \<Rightarrow> u8 \<Rightarrow> 's wireUtil_scheme \<times> 'w \<Rightarrow> u32 \<times> 's wireUtil_scheme \<times> 'w" where
  "readRegister_start T reg n sw =
    (let s = fst sw;
         w1 = t_begin_transmission T (address s) (snd sw);
         w2 = t_write T reg w1;
         e = t_end_transmission T False w2;
         w3 = t_request_from T (address s) n (snd e);
         s1 = s\<lparr>timeoutFlag := False\<rparr>;
         m = t_millis T w3;
         abortTime = fst m + timeoutTime s1
     in (abortTime, s1, snd m))"

text \<open>One register word taken from the bus: lines 173 and 174, and lines 211 and 212.\<close>

definition readWord :: "'w transport \<Rightarrow> 'w \<Rightarrow> 'a::len word \<times> 'w" where
  "readWord T w =
    (if sizeof (0 :: 'a word) = 1 then (let r = t_read T w in (word_of_int (fst r), snd r))
     else readAsBytes T w)"

text \<open>
  \<open>readRegister\<close>: the start above, the loop on \<open>!Wire.available()\<close>, then the word read,
  or \<open>0\<close> from the timeout branch.
\<close>

definition readRegister ::
  "'w transport \<Rightarrow> u8 \<Rightarrow> 's wireUtil_scheme \<times> 'w
    \<Rightarrow> ('a::len word \<times> 's wireUtil_scheme \<times> 'w) option" where
  "readRegister T reg sw =
    (let st = readRegister_start T reg (of_nat (sizeof (0 :: 'a word))) sw;
         abortTime = fst st;
         s1 = fst (snd st)
     in case waitAvailable T (\<lambda>n. n = 0) abortTime (snd (snd st)) of
          None \<Rightarrow> None
        | Some p \<Rightarrow>
            if fst p then (let r = readWord T (snd p) in Some (fst r, s1, snd r))
            else Some (0, timedOut s1, snd p))"

subsection \<open>readRegisters\<close>

text \<open>
  Lines 188 to 197. \<open>memset\<close> zeroes the first \<open>len\<close> words of \<open>buffer\<close>; the request is
  for \<open>(uint8_t) bufferSize\<close> bytes. The result is the deadline, \<open>bufferSize\<close>, the buffer
  and the two states when polling begins.
\<close>

definition readRegisters_start ::
  "'w transport \<Rightarrow> u8 \<Rightarrow> 'a::len word list \<Rightarrow> u8 \<Rightarrow> 's wireUtil_scheme \<times> 'w
    \<Rightarrow> u32 \<times> nat \<times> 'a word list \<times> 's wireUtil_scheme \<times> 'w" where
  "readRegisters_start T reg buffer len sw =
    (let s = fst sw;
         w1 = t_begin_transmission T (address s) (snd sw);
         w2 = t_write T reg w1;
         e = t_end_transmission T False w2;
         s1 = s\<lparr>timeoutFlag := False\<rparr>;
         m = t_millis T (snd e);
         abortTime = fst m + timeoutTime s1;
         bufferSize = unat len * sizeof (0 :: 'a word);
         buffer1 = replicate (unat len) 0 @ drop (unat len) buffer;
         w3 = t_request_from T (address s) (of_nat bufferSize) (snd m)
     in (abortTime, bufferSize, buffer1, s1, w3))"

text \<open>The loop of lines 209 to 213: \<open>n\<close> words are read, the first into slot 0.\<close>

primrec readWords :: "'w transport \<Rightarrow> nat \<Rightarrow> 'w \<Rightarrow> 'a::len word list \<times> 'w" where
  "readWords T 0 w = ([], w)"
| "readWords T (Suc n) w =
    (let r = readWord T w; rest = readWords T n (snd r)
     in (fst r # fst rest, snd rest))"

text \<open>
  \<open>readRegisters\<close>: the start above, the loop on \<open>Wire.available() < bufferSize\<close>, then
  \<open>len\<close> words read into the first slots of the buffer, or \<open>false\<close> from the timeout
  branch with the buffer as \<open>memset\<close> left it.
\<close>

definition readRegisters ::
  "'w transport \<Rightarrow> u8 \<Rightarrow> 'a::len word list \<Rightarrow> u8 \<Rightarrow> 's wireUtil_scheme \<times> 'w
    \<Rightarrow> (bool \<times> 'a word list \<times> 's wireUtil_scheme \<times> 'w) option" where
  "readRegisters T reg buffer len sw =
    (let st = readRegisters_start T reg buffer len sw;
         abortTime = fst st;
         bufferSize = fst (snd st);
         buffer1 = fst (snd (snd st));
         s1 = fst (snd (snd (snd st)))
     in case waitAvailable T (\<lambda>n. n < bufferSize) abortTime (snd (snd (snd (snd st)))) of
          None \<Rightarrow> None
        | Some p \<Rightarrow>
            if fst p then
              (let r = readWords T (unat len) (snd p)
               in Some (True, fst r @ drop (unat len) buffer1, s1, snd r))
            else Some (False, buffer1, timedOut s1, snd p))"

subsection \<open>setRegisterBit\<close>

text \<open>
  \<open>(DATATYPE)(1 << bit)\<close> is the one-bit mask, \<open>0\<close> when \<open>bit\<close> is beyond the word (C++
  leaves a shift by the width of \<open>int\<close> or more undefined). The register word type is
  the first argument, since no other argument carries it.
\<close>

definition setRegisterBit ::
  "'a::len itself \<Rightarrow> 'w transport \<Rightarrow> u8 \<Rightarrow> u8 \<Rightarrow> bool \<Rightarrow> 's wireUtil_scheme \<times> 'w
    \<Rightarrow> (bool \<times> 's wireUtil_scheme \<times> 'w) option" where
  "setRegisterBit ty T reg bitIndex state sw =
    (case readRegister T reg sw of
       None \<Rightarrow> None
     | Some r \<Rightarrow>
         (let tempReg = fst r :: 'a word;
              mask = push_bit (unat bitIndex) 1 :: 'a word;
              tempReg1 = (if state then tempReg OR mask else tempReg AND NOT mask)
          in Some (writeRegister T reg tempReg1 (snd r))))"

section \<open>ADS1x15: the device profile\<close>

subsection \<open>Register map and bit fields (ADS1x15.h)\<close>

datatype ADS1x15_Register_t = CONVERSION_REG | CONFIG_REG | LOW_THRESH_REG | HI_THRESH_REG

fun reg_addr :: "ADS1x15_Register_t \<Rightarrow> u8" where
  "reg_addr CONVERSION_REG = 0x00"
| "reg_addr CONFIG_REG = 0x01"
| "reg_addr LOW_THRESH_REG = 0x02"
| "reg_addr HI_THRESH_REG = 0x03"

definition ADS1x15_OS :: u16 where
  "ADS1x15_OS = push_bit 15 1"

definition ADS1x15_MUX_MASK :: u16 where
  "ADS1x15_MUX_MASK = push_bit 12 0x07"

datatype ADS1x15_MUX_t = DIF01 | DIF03 | DIF13 | DIF23 | SE0 | SE1 | SE2 | SE3

fun mux_bits :: "ADS1x15_MUX_t \<Rightarrow> u16" where
  "mux_bits DIF01 = push_bit 12 0x0"
| "mux_bits DIF03 = push_bit 12 0x1"
| "mux_bits DIF13 = push_bit 12 0x2"
| "mux_bits DIF23 = push_bit 12 0x3"
| "mux_bits SE0 = push_bit 12 0x4"
| "mux_bits SE1 = push_bit 12 0x5"
| "mux_bits SE2 = push_bit 12 0x6"
| "mux_bits SE3 = push_bit 12 0x7"

definition ADS1x15_GAIN_MASK :: u16 where
  "ADS1x15_GAIN_MASK = push_bit 9 0x7"

datatype ADS1x15_GAIN_t = GAIN_23 | GAIN_1 | GAIN_2 | GAIN_4 | GAIN_8 | GAIN_16

fun gain_bits :: "ADS1x15_GAIN_t \<Rightarrow> u16" where
  "gain_bits GAIN_23 = push_bit 9 0x0"
| "gain_bits GAIN_1 = push_bit 9 0x1"
| "gain_bits GAIN_2 = push_bit 9 0x2"
| "gain_bits GAIN_4 = push_bit 9 0x3"
| "gain_bits GAIN_8 = push_bit 9 0x4"
| "gain_bits GAIN_16 = push_bit 9 0x5"

definition ADS1x15_DR_MASK :: u16 where
  "ADS1x15_DR_MASK = push_bit 5 0x7"

datatype ADS1115_DR_t =
  ADS1115_DR_8 | ADS1115_DR_16 | ADS1115_DR_32 | ADS1115_DR_64
  | ADS1115_DR_128 | ADS1115_DR_250 | ADS1115_DR_475 | ADS1115_DR_860

fun dr1115_bits :: "ADS1115_DR_t \<Rightarrow> u16" where
  "dr1115_bits ADS1115_DR_8 = push_bit 5 0x0"
| "dr1115_bits ADS1115_DR_16 = push_bit 5 0x1"
| "dr1115_bits ADS1115_DR_32 = push_bit 5 0x2"
| "dr1115_bits ADS1115_DR_64 = push_bit 5 0x3"
| "dr1115_bits ADS1115_DR_128 = push_bit 5 0x4"
| "dr1115_bits ADS1115_DR_250 = push_bit 5 0x5"
| "dr1115_bits ADS1115_DR_475 = push_bit 5 0x6"
| "dr1115_bits ADS1115_DR_860 = push_bit 5 0x7"

datatype ADS1015_DR_t =
  ADS1015_DR_128 | ADS1015_DR_250 | ADS1015_DR_490 | ADS1015_DR_920
  | ADS1015_DR_1600 | ADS1015_DR_2400 | ADS1015_DR_3300

fun dr1015_bits :: "ADS1015_DR_t \<Rightarrow> u16" where
  "dr1015_bits ADS1015_DR_128 = push_bit 5 0x0"
| "dr1015_bits ADS1015_DR_250 = push_bit 5 0x1"
| "dr1015_bits ADS1015_DR_490 = push_bit 5 0x2"
| "dr1015_bits ADS1015_DR_920 = push_bit 5 0x3"
| "dr1015_bits ADS1015_DR_1600 = push_bit 5 0x4"
| "dr1015_bits ADS1015_DR_2400 = push_bit 5 0x5"
| "dr1015_bits ADS1015_DR_3300 = push_bit 5 0x6"

definition defaultConfig :: u16 where
  "defaultConfig = 0x8583"

definition defaultAddress :: u8 where
  "defaultAddress = 0x48"

subsection \<open>Floating point\<close>

text \<open>
  \<open>float\<close> arithmetic is a parameter too: a type \<open>'f\<close> with the operations the driver
  uses. \<open>f_lit x\<close> is the \<open>float\<close> of the decimal literal \<open>x\<close>, \<open>f_pos x\<close> the test
  \<open>x > 0.0\<close>, \<open>f_of_u16\<close> the conversion \<open>(float)\<close> of a \<open>uint16_t\<close>. Nothing is assumed
  of them, so what is proved holds of IEEE arithmetic with its rounding as well as of
  the reals, which are the instance \<open>real_ops\<close>.
\<close>

record 'f float_ops =
  f_lit :: "real \<Rightarrow> 'f"
  f_add :: "'f \<Rightarrow> 'f \<Rightarrow> 'f"
  f_mul :: "'f \<Rightarrow> 'f \<Rightarrow> 'f"
  f_div :: "'f \<Rightarrow> 'f \<Rightarrow> 'f"
  f_pos :: "'f \<Rightarrow> bool"
  f_of_u16 :: "u16 \<Rightarrow> 'f"

definition real_ops :: "real float_ops" where
  "real_ops =
    \<lparr>f_lit = (\<lambda>x. x), f_add = (+), f_mul = (*), f_div = (/),
     f_pos = (\<lambda>x. 0 < x), f_of_u16 = (\<lambda>c. real (unat c))\<rparr>"

subsection \<open>The classes\<close>

text \<open>
  The two concrete classes differ in their virtual members only; \<open>chip\<close> is the dynamic
  type of the object.
\<close>

datatype chip_t = ADS1115 | ADS1015

record 'f ADS1x15 = wireUtil +
  chip :: chip_t
  configRegister :: u16
  currentGain :: ADS1x15_GAIN_t
  conversionDelay :: u32
  calibration :: 'f

fun getADCbits :: "chip_t \<Rightarrow> u8" where
  "getADCbits ADS1115 = 16"
| "getADCbits ADS1015 = 12"

fun getFullScaleBits :: "chip_t \<Rightarrow> u16" where
  "getFullScaleBits ADS1115 = 0x7FFF"
| "getFullScaleBits ADS1015 = 0x07FF"

fun shiftConversion :: "chip_t \<Rightarrow> u16 \<Rightarrow> u16" where
  "shiftConversion ADS1115 c = c"
| "shiftConversion ADS1015 c = drop_bit 4 c"

definition setCalibration :: "'f \<Rightarrow> 'f ADS1x15 \<Rightarrow> 'f ADS1x15" where
  "setCalibration c s = s\<lparr>calibration := c\<rparr>"

definition setCalibration2 :: "'f float_ops \<Rightarrow> 'f \<Rightarrow> 'f \<Rightarrow> 'f ADS1x15 \<Rightarrow> 'f ADS1x15" where
  "setCalibration2 F r1 r2 s =
    (if f_pos F r2 then s\<lparr>calibration := f_div F (f_add F r1 r2) r2\<rparr> else s)"

definition getCalibration :: "'f ADS1x15 \<Rightarrow> 'f" where
  "getCalibration s = calibration s"

definition setGain :: "ADS1x15_GAIN_t \<Rightarrow> 'f ADS1x15 \<Rightarrow> 'f ADS1x15" where
  "setGain g s =
    s\<lparr>currentGain := g,
      configRegister := (configRegister s AND NOT ADS1x15_GAIN_MASK) OR gain_bits g\<rparr>"

definition getFullScaleV :: "'f float_ops \<Rightarrow> 'f ADS1x15 \<Rightarrow> 'f" where
  "getFullScaleV F s =
    (let v = (if currentGain s = GAIN_23 then f_lit F 6.144
              else if currentGain s = GAIN_1 then f_lit F 4.096
              else if currentGain s = GAIN_2 then f_lit F 2.048
              else if currentGain s = GAIN_4 then f_lit F 1.024
              else if currentGain s = GAIN_8 then f_lit F 0.512
              else if currentGain s = GAIN_16 then f_lit F 0.256
              else f_lit F 0.0)
     in f_mul F v (calibration s))"

definition setDataRate1115 :: "ADS1115_DR_t \<Rightarrow> 'f ADS1x15 \<Rightarrow> 'f ADS1x15" where
  "setDataRate1115 dataRate s =
    s\<lparr>configRegister := (configRegister s AND NOT ADS1x15_DR_MASK) OR dr1115_bits dataRate,
      conversionDelay :=
        (case dataRate of
           ADS1115_DR_8 \<Rightarrow> 125400 | ADS1115_DR_16 \<Rightarrow> 62900
         | ADS1115_DR_32 \<Rightarrow> 31650 | ADS1115_DR_64 \<Rightarrow> 16025
         | ADS1115_DR_128 \<Rightarrow> 8213 | ADS1115_DR_250 \<Rightarrow> 4400
         | ADS1115_DR_475 \<Rightarrow> 2505 | ADS1115_DR_860 \<Rightarrow> 1563)\<rparr>"

definition setDataRate1015 :: "ADS1015_DR_t \<Rightarrow> 'f ADS1x15 \<Rightarrow> 'f ADS1x15" where
  "setDataRate1015 dataRate s =
    s\<lparr>configRegister := (configRegister s AND NOT ADS1x15_DR_MASK) OR dr1015_bits dataRate,
      conversionDelay :=
        (case dataRate of
           ADS1015_DR_128 \<Rightarrow> 8213 | ADS1015_DR_250 \<Rightarrow> 4400
         | ADS1015_DR_490 \<Rightarrow> 2441 | ADS1015_DR_920 \<Rightarrow> 1487
         | ADS1015_DR_1600 \<Rightarrow> 1025 | ADS1015_DR_2400 \<Rightarrow> 817
         | ADS1015_DR_3300 \<Rightarrow> 703)\<rparr>"

text \<open>
  The constructors, for an object of static storage duration: the members no constructor
  sets (\<open>address\<close>, the two handlers, \<open>conversionDelay\<close> before \<open>setDataRate\<close>) are zero.
\<close>

definition ADS1x15_new :: "'f float_ops \<Rightarrow> chip_t \<Rightarrow> 'f ADS1x15" where
  "ADS1x15_new F c =
    \<lparr>address = 0, timeoutTime = 1000, timeoutFlag = False,
     timeOutHandler = None, errorHandler = None, calls = [],
     chip = c, configRegister = defaultConfig, currentGain = GAIN_2,
     conversionDelay = 0, calibration = f_lit F 1.0\<rparr>"

definition ADS1115_new :: "'f float_ops \<Rightarrow> 'f ADS1x15" where
  "ADS1115_new F = setDataRate1115 ADS1115_DR_128 (ADS1x15_new F ADS1115)"

definition ADS1015_new :: "'f float_ops \<Rightarrow> 'f ADS1x15" where
  "ADS1015_new F = setDataRate1015 ADS1015_DR_1600 (ADS1x15_new F ADS1015)"

subsection \<open>Conversions\<close>

text \<open>
  \<open>analogRead(ADS1x15_MUX_t)\<close>. The result of \<open>writeRegister\<close> is dropped. The returned
  \<open>int16_t\<close> is the word whose \<open>sint\<close> is its value.
\<close>

definition analogRead ::
  "'w transport \<Rightarrow> ADS1x15_MUX_t \<Rightarrow> 'f ADS1x15 \<times> 'w \<Rightarrow> (u16 \<times> 'f ADS1x15 \<times> 'w) option" where
  "analogRead T mux sw =
    (let s = fst sw;
         c1 = configRegister s AND NOT ADS1x15_MUX_MASK;
         c2 = c1 OR mux_bits mux;
         c3 = c2 OR ADS1x15_OS;
         s1 = s\<lparr>configRegister := c3\<rparr>;
         wr = writeRegister T (reg_addr CONFIG_REG) c3 (s1, snd sw);
         s2 = fst (snd wr);
         w2 = t_delay_us T (conversionDelay s2) (snd (snd wr))
     in case readRegister T (reg_addr CONVERSION_REG) (s2, w2) of
          None \<Rightarrow> None
        | Some r \<Rightarrow>
            (let result = shiftConversion (chip s2) (fst r)
             in if getFullScaleBits (chip s2) < result then Some (result OR 0x8000, snd r)
                else Some (result, snd r)))"

text \<open>\<open>analogRead(uint8_t)\<close>: the \<open>int16_t\<close> of the other overload is returned as \<open>uint16_t\<close>.\<close>

definition analogRead_ch ::
  "'w transport \<Rightarrow> u8 \<Rightarrow> 'f ADS1x15 \<times> 'w \<Rightarrow> (u16 \<times> 'f ADS1x15 \<times> 'w) option" where
  "analogRead_ch T ch sw =
    (if ch = 0 then analogRead T SE0 sw
     else if ch = 1 then analogRead T SE1 sw
     else if ch = 2 then analogRead T SE2 sw
     else if ch = 3 then analogRead T SE3 sw
     else Some (0, sw))"

text \<open>
  \<open>analogReadVoltage\<close>. The two operands of the product do not depend on the order they
  are evaluated in: \<open>analogRead\<close> changes neither the gain nor the calibration.
\<close>

definition analogReadVoltage ::
  "'f float_ops \<Rightarrow> 'w transport \<Rightarrow> u8 \<Rightarrow> 'f ADS1x15 \<times> 'w \<Rightarrow> ('f \<times> 'f ADS1x15 \<times> 'w) option" where
  "analogReadVoltage F T ch sw =
    (case analogRead_ch T ch sw of
       None \<Rightarrow> None
     | Some r \<Rightarrow>
         (let s1 = fst (snd r)
          in Some (f_mul F (getFullScaleV F s1)
                     (f_div F (f_of_u16 F (fst r)) (f_of_u16 F (getFullScaleBits (chip s1)))),
                   snd r)))"

section \<open>A simulated transport\<close>

text \<open>
  A test double of the platform, used to run the model on concrete inputs: a device of
  16-bit registers behind a bus. A write transaction of one byte sets the register
  pointer; one of three bytes or more also stores the big-endian word that follows it.
  A request loads the two bytes of the pointed register, most significant first, into
  the receive buffer. Three knobs make it fail: \<open>status\<close> is what every
  \<open>endTransmission\<close> reports (a transaction that is not acknowledged changes nothing in
  the device), \<open>supply\<close> bounds the bytes a request delivers, and \<open>tick\<close> is how far
  the clock advances at each \<open>millis()\<close>.
\<close>

record bus =
  clock :: u32
  txbuf :: "u8 list"
  sent :: "u8 list list"
  rxbuf :: "u8 list"
  pointer :: u8
  regs :: "u8 \<Rightarrow> u16"

definition bus_commit :: "bus \<Rightarrow> bus" where
  "bus_commit w =
    (case txbuf w of
       [] \<Rightarrow> w
     | [p] \<Rightarrow> w\<lparr>pointer := p\<rparr>
     | [p, hi] \<Rightarrow> w\<lparr>pointer := p\<rparr>
     | p # hi # lo # rest \<Rightarrow>
         w\<lparr>pointer := p, regs := (regs w)(p := push_bit 8 (ucast hi) OR ucast lo)\<rparr>)"

definition bus_end :: "u8 \<Rightarrow> bool \<Rightarrow> bus \<Rightarrow> u8 \<times> bus" where
  "bus_end status stop w =
    (status,
     (if status = 0 then bus_commit w else w)\<lparr>sent := sent w @ [txbuf w], txbuf := []\<rparr>)"

definition bus_request :: "nat \<Rightarrow> u8 \<Rightarrow> u8 \<Rightarrow> bus \<Rightarrow> bus" where
  "bus_request supply a n w =
    w\<lparr>rxbuf := take (min (unat n) supply)
                 [ucast (drop_bit 8 (regs w (pointer w))), ucast (regs w (pointer w))]\<rparr>"

definition bus_read :: "bus \<Rightarrow> int \<times> bus" where
  "bus_read w = (case rxbuf w of [] \<Rightarrow> (- 1, w) | b # bs \<Rightarrow> (uint b, w\<lparr>rxbuf := bs\<rparr>))"

definition simulated :: "u8 \<Rightarrow> nat \<Rightarrow> u32 \<Rightarrow> bus transport" where
  "simulated status supply tick =
    \<lparr>t_begin_transmission = (\<lambda>a w. w\<lparr>txbuf := []\<rparr>),
     t_write = (\<lambda>b w. w\<lparr>txbuf := txbuf w @ [b]\<rparr>),
     t_end_transmission = bus_end status,
     t_request_from = bus_request supply,
     t_available = (\<lambda>w. (length (rxbuf w), w)),
     t_read = bus_read,
     t_millis = (\<lambda>w. (clock w, w\<lparr>clock := clock w + tick\<rparr>)),
     t_delay_us = (\<lambda>n w. w)\<rparr>"

definition bus0 :: bus where
  "bus0 = \<lparr>clock = 0, txbuf = [], sent = [], rxbuf = [], pointer = 0, regs = (\<lambda>r. 0)\<rparr>"

definition wireUtil0 :: wireUtil where
  "wireUtil0 =
    \<lparr>address = 0x48, timeoutTime = 1000, timeoutFlag = False,
     timeOutHandler = None, errorHandler = None, calls = []\<rparr>"

section \<open>The polling loop, round by round\<close>

text \<open>
  The platform state after one round of the loop that goes on waiting, and after \<open>i\<close>
  such rounds.
\<close>

definition pollStep :: "'w transport \<Rightarrow> 'w \<Rightarrow> 'w" where
  "pollStep T w = snd (t_millis T (snd (t_available T w)))"

primrec pollWorld :: "'w transport \<Rightarrow> nat \<Rightarrow> 'w \<Rightarrow> 'w" where
  "pollWorld T 0 w = w"
| "pollWorld T (Suc i) w = pollWorld T i (pollStep T w)"

text \<open>
  \<open>delivers T w bs\<close>: from the state \<open>w\<close>, successive calls of \<open>Wire.read()\<close> return the
  bytes \<open>bs\<close> in order.
\<close>

primrec delivers :: "'w transport \<Rightarrow> 'w \<Rightarrow> u8 list \<Rightarrow> bool" where
  "delivers T w [] = True"
| "delivers T w (b # bs) = (fst (t_read T w) = uint b \<and> delivers T (snd (t_read T w)) bs)"

section \<open>Basic facts\<close>

lemma sizeof_u8: "sizeof (d :: u8) = 1"
  by (simp add: sizeof_def)

lemma sizeof_u16: "sizeof (d :: u16) = 2"
  by (simp add: sizeof_def)

lemma sizeof_u32: "sizeof (d :: u32) = 4"
  by (simp add: sizeof_def)

lemma and_FF: "(x :: 'a::len word) AND 0xFF = take_bit 8 x"
proof -
  have "(0xFF :: 'a word) = mask 8"
    by (simp add: mask_eq_exp_minus_1)
  then show ?thesis
    by (simp add: take_bit_eq_mask)
qed

lemma low_byte: "(ucast (x AND 0xFF :: 'a::len word) :: u8) = ucast x"
  unfolding and_FF by (rule bit_word_eqI) (simp add: bit_simps)

lemma writeAsBytes_buffer_u16:
  "writeAsBytes_buffer (d :: u16) = [ucast (drop_bit 8 d), ucast d]"
  by (simp add: writeAsBytes_buffer_def sizeof_u16 Let_def low_byte)

lemma writeAsBytes_buffer_u32:
  "writeAsBytes_buffer (d :: u32) =
    [ucast (drop_bit 24 d), ucast (drop_bit 16 d), ucast (drop_bit 8 d), ucast d]"
  by (simp add: writeAsBytes_buffer_def sizeof_u32 Let_def low_byte)

lemma join_u16:
  "push_bit 8 (ucast (ucast (drop_bit 8 d) :: u8)) OR ucast (ucast d :: u8) = (d :: u16)"
  by (rule bit_word_eqI) (auto simp add: bit_simps not_less)

lemma join_u32:
  "push_bit 24 (ucast (ucast (drop_bit 24 d) :: u8))
    OR push_bit 16 (ucast (ucast (drop_bit 16 d) :: u8))
    OR push_bit 8 (ucast (ucast (drop_bit 8 d) :: u8))
    OR ucast (ucast d :: u8) = (d :: u32)"
proof (rule bit_word_eqI)
  fix n
  assume "n < LENGTH(32)"
  then show "bit (push_bit 24 (ucast (ucast (drop_bit 24 d) :: u8))
      OR push_bit 16 (ucast (ucast (drop_bit 16 d) :: u8))
      OR push_bit 8 (ucast (ucast (drop_bit 8 d) :: u8))
      OR ucast (ucast d :: u8) :: u32) n = bit d n"
    by (cases "n < 8"; cases "n < 16"; cases "n < 24") (auto simp add: bit_simps not_less)
qed

lemma readAsBytes_u16:
  "delivers T w [b0, b1] \<Longrightarrow>
    readAsBytes T w = (push_bit 8 (ucast b0) OR ucast b1 :: u16, snd (t_read T (snd (t_read T w))))"
  by (simp add: readAsBytes_def sizeof_u16 Let_def)

lemma readAsBytes_u32:
  "delivers T w [b0, b1, b2, b3] \<Longrightarrow>
    fst (readAsBytes T w) =
      (push_bit 24 (ucast b0) OR push_bit 16 (ucast b1) OR push_bit 8 (ucast b2) OR ucast b3 :: u32)"
  by (simp add: readAsBytes_def sizeof_u32 Let_def or.assoc)

subsection \<open>One round of the polling loop\<close>

lemma waitAvailable_ready:
  "\<not> waiting (fst (t_available T w)) \<Longrightarrow>
    waitAvailable T waiting a w = Some (True, snd (t_available T w))"
  by (subst waitAvailable.simps) (simp add: Let_def)

lemma waitAvailable_late:
  "waiting (fst (t_available T w)) \<Longrightarrow> a < fst (t_millis T (snd (t_available T w))) \<Longrightarrow>
    waitAvailable T waiting a w = Some (False, pollStep T w)"
  by (subst waitAvailable.simps) (simp add: Let_def pollStep_def)

lemma waitAvailable_again:
  "waiting (fst (t_available T w)) \<Longrightarrow> \<not> a < fst (t_millis T (snd (t_available T w))) \<Longrightarrow>
    waitAvailable T waiting a w = waitAvailable T waiting a (pollStep T w)"
  by (subst waitAvailable.simps) (simp add: Let_def pollStep_def)

text \<open>
  If the loop is still waiting at each of the rounds \<open>0\<close> to \<open>k\<close> and the clock read in
  round \<open>k\<close> is past the deadline, the loop takes its timeout branch, in round \<open>k\<close> or
  earlier.
\<close>

lemma waitAvailable_timeout:
  assumes "\<And>i. i \<le> k \<Longrightarrow> waiting (fst (t_available T (pollWorld T i w)))"
    and "a < fst (t_millis T (snd (t_available T (pollWorld T k w))))"
  shows "\<exists>j\<le>k. waitAvailable T waiting a w = Some (False, pollWorld T (Suc j) w)"
  using assms
proof (induction k arbitrary: w)
  case 0
  then have "waiting (fst (t_available T w))"
    and "a < fst (t_millis T (snd (t_available T w)))"
    by force+
  then show ?case
    by (simp add: waitAvailable_late)
next
  case (Suc k)
  have w0: "waiting (fst (t_available T w))"
    using Suc.prems(1) [of 0] by simp
  show ?case
  proof (cases "a < fst (t_millis T (snd (t_available T w)))")
    case True
    with w0 show ?thesis
      by (intro exI [of _ 0]) (simp add: waitAvailable_late)
  next
    case False
    have "\<And>i. i \<le> k \<Longrightarrow> waiting (fst (t_available T (pollWorld T i (pollStep T w))))"
      using Suc.prems(1) by (metis Suc_le_mono pollWorld.simps(2))
    moreover have "a < fst (t_millis T (snd (t_available T (pollWorld T k (pollStep T w)))))"
      using Suc.prems(2) by simp
    ultimately obtain j where "j \<le> k"
      and "waitAvailable T waiting a (pollStep T w) =
        Some (False, pollWorld T (Suc j) (pollStep T w))"
      using Suc.IH by blast
    with w0 False show ?thesis
      by (intro exI [of _ "Suc j"]) (simp add: waitAvailable_again)
  qed
qed

lemma replicate_two: "replicate 2 x = [x, x]"
  by (simp add: numeral_2_eq_2)

text \<open>
  \<open>readRegister\<close> when no byte at all becomes available: if \<open>Wire.available()\<close> is \<open>0\<close>
  at each of the rounds \<open>0\<close> to \<open>k\<close> and the clock read in round \<open>k\<close> is past the
  deadline, the flag is set, the handler (if any) is called once and \<open>0\<close> is returned.
\<close>

lemma readRegister_no_byte:
  assumes start:
      "readRegister_start T reg (of_nat (sizeof (0 :: 'a::len word))) (s, w) = (abortTime, s1, w1)"
    and starved: "\<And>i. i \<le> k \<Longrightarrow> fst (t_available T (pollWorld T i w1)) = 0"
    and late: "abortTime < fst (t_millis T (snd (t_available T (pollWorld T k w1))))"
  shows "\<exists>w'. readRegister T reg (s, w) =
      Some (0 :: 'a word,
            s\<lparr>timeoutFlag := True,
              calls := calls s @ (case timeOutHandler s of None \<Rightarrow> [] | Some h \<Rightarrow> [TimeoutCall h])\<rparr>,
            w')"
proof -
  have s1: "s1 = s\<lparr>timeoutFlag := False\<rparr>"
    using start by (simp add: readRegister_start_def Let_def)
  obtain j where "waitAvailable T (\<lambda>n. n = 0) abortTime w1 = Some (False, pollWorld T (Suc j) w1)"
    using waitAvailable_timeout [of k "\<lambda>n. n = 0" T w1 abortTime] starved late by blast
  then have "readRegister T reg (s, w) = Some (0 :: 'a word, timedOut s1, pollWorld T (Suc j) w1)"
    by (simp add: readRegister_def start Let_def)
  moreover have "timedOut s1 =
      s\<lparr>timeoutFlag := True,
        calls := calls s @ (case timeOutHandler s of None \<Rightarrow> [] | Some h \<Rightarrow> [TimeoutCall h])\<rparr>"
    by (simp add: s1 timedOut_def split: option.splits)
  ultimately show ?thesis
    by simp
qed

lemmas sim_defs = simulated_def bus_end_def bus_commit_def bus_request_def bus_read_def

section \<open>The claims\<close>

text \<open>
  C2. Serialization is big-endian. \<open>writeAsBytes\<close> of the 2-byte word \<open>0x1234\<close> writes
  \<open>0x12\<close> then \<open>0x34\<close> to the bus, and of the 4-byte word \<open>0x12345678\<close> the bytes \<open>0x12\<close>,
  \<open>0x34\<close>, \<open>0x56\<close>, \<open>0x78\<close> in that order. \<open>readAsBytes\<close> puts the first byte it reads in
  the most significant place, and is the inverse: reading back the bytes written for a
  word gives that word.
\<close>

theorem big_endian_serialization:
  fixes d :: u16 and e :: u32
  shows "writeAsBytes T (0x1234 :: u16) w = t_write T 0x34 (t_write T 0x12 w)
    \<and> writeAsBytes T (0x12345678 :: u32) w =
        t_write T 0x78 (t_write T 0x56 (t_write T 0x34 (t_write T 0x12 w)))
    \<and> writeAsBytes_buffer (0x1234 :: u16) = [0x12, 0x34]
    \<and> writeAsBytes_buffer (0x12345678 :: u32) = [0x12, 0x34, 0x56, 0x78]
    \<and> (delivers T w [b0, b1] \<longrightarrow>
         fst (readAsBytes T w) = (push_bit 8 (ucast b0) OR ucast b1 :: u16))
    \<and> (delivers T w [b0, b1, b2, b3] \<longrightarrow>
         fst (readAsBytes T w) =
           (push_bit 24 (ucast b0) OR push_bit 16 (ucast b1) OR push_bit 8 (ucast b2)
             OR ucast b3 :: u32))
    \<and> (delivers T w (writeAsBytes_buffer d) \<longrightarrow> fst (readAsBytes T w) = d)
    \<and> (delivers T w (writeAsBytes_buffer e) \<longrightarrow> fst (readAsBytes T w) = e)"
proof -
  have "writeAsBytes T (0x1234 :: u16) w = t_write T 0x34 (t_write T 0x12 w)"
    by (simp add: writeAsBytes_def writeAsBytes_buffer_def sizeof_u16 Let_def)
  moreover have "writeAsBytes T (0x12345678 :: u32) w =
      t_write T 0x78 (t_write T 0x56 (t_write T 0x34 (t_write T 0x12 w)))"
    by (simp add: writeAsBytes_def writeAsBytes_buffer_def sizeof_u32 Let_def)
  moreover have "writeAsBytes_buffer (0x1234 :: u16) = [0x12, 0x34]"
    by (simp add: writeAsBytes_buffer_def sizeof_u16 Let_def)
  moreover have "writeAsBytes_buffer (0x12345678 :: u32) = [0x12, 0x34, 0x56, 0x78]"
    by (simp add: writeAsBytes_buffer_def sizeof_u32 Let_def)
  moreover have "delivers T w [b0, b1] \<longrightarrow>
      fst (readAsBytes T w) = (push_bit 8 (ucast b0) OR ucast b1 :: u16)"
    by (simp add: readAsBytes_u16)
  moreover have "delivers T w [b0, b1, b2, b3] \<longrightarrow>
      fst (readAsBytes T w) =
        (push_bit 24 (ucast b0) OR push_bit 16 (ucast b1) OR push_bit 8 (ucast b2)
          OR ucast b3 :: u32)"
    by (simp add: readAsBytes_u32)
  moreover have "delivers T w (writeAsBytes_buffer d) \<longrightarrow> fst (readAsBytes T w) = d"
    unfolding writeAsBytes_buffer_u16 using join_u16 [of d]
    by (auto simp add: readAsBytes_u16)
  moreover have "delivers T w (writeAsBytes_buffer e) \<longrightarrow> fst (readAsBytes T w) = e"
    unfolding writeAsBytes_buffer_u32 using join_u32 [of e]
    by (auto simp add: readAsBytes_u32 or.assoc)
  ultimately show ?thesis
    by blast
qed

theorem big_endian_serialization_witness:
  "fst (readAsBytes (simulated 0 2 1) (bus0\<lparr>rxbuf := [0x12, 0x34]\<rparr>)) = (0x1234 :: u16)
   \<and> fst (readAsBytes (simulated 0 2 1) (bus0\<lparr>rxbuf := [0x12, 0x34, 0x56, 0x78]\<rparr>))
      = (0x12345678 :: u32)"
proof -
  have a: "delivers (simulated 0 2 1) (bus0\<lparr>rxbuf := [0x12, 0x34]\<rparr>)
      (writeAsBytes_buffer (0x1234 :: u16))"
    by (simp add: writeAsBytes_buffer_def sizeof_u16 Let_def sim_defs)
  have b: "delivers (simulated 0 2 1) (bus0\<lparr>rxbuf := [0x12, 0x34, 0x56, 0x78]\<rparr>)
      (writeAsBytes_buffer (0x12345678 :: u32))"
    by (simp add: writeAsBytes_buffer_def sizeof_u32 Let_def sim_defs)
  show ?thesis
    using a b
      big_endian_serialization [of "simulated 0 2 1" "bus0\<lparr>rxbuf := [0x12, 0x34]\<rparr>"
        0 0 0 0 "0x1234" 0]
      big_endian_serialization [of "simulated 0 2 1"
        "bus0\<lparr>rxbuf := [0x12, 0x34, 0x56, 0x78]\<rparr>" 0 0 0 0 0 "0x12345678"]
    by blast
qed

text \<open>
  C1. As stated, \<open>readRegister\<close> would report a timeout whenever the expected byte count
  does not become available. It does not: its loop waits for a first byte only. With
  the 2-byte register word of this driver and a transport that delivers one byte of
  the two requested, a handler being registered, \<open>readRegister\<close> returns at the first
  poll with the timeout flag false and no handler call, and the word it returns is
  \<open>0xFFFF\<close>, made of the byte received and of the \<open>-1\<close> of the read that found nothing.
\<close>

theorem readRegister_partial_read:
  "readRegister (simulated 0 1 1) 0
      (wireUtil0\<lparr>timeOutHandler := Some 7\<rparr>, bus0\<lparr>regs := (regs bus0)(0 := 0x1234)\<rparr>)
    = Some (0xFFFF :: u16, wireUtil0\<lparr>timeOutHandler := Some 7\<rparr>,
            bus0\<lparr>regs := (regs bus0)(0 := 0x1234), clock := 1, sent := [[0]]\<rparr>)"
  by (simp add: readRegister_def readRegister_start_def sim_defs waitAvailable_ready
      readWord_def readAsBytes_def sizeof_u16 bus0_def wireUtil0_def Let_def)

text \<open>
  The timeout path of \<open>readRegisters\<close>. The first \<open>len\<close> words of the destination are
  zeroed before polling begins. When the count of available bytes stays below
  \<open>bufferSize\<close> at every poll up to one whose clock reading is past the deadline, the
  call returns false with the timeout flag true and the destination still zeroed, and the
  timeout handler is called exactly once if one is registered and not at all otherwise.
\<close>

theorem readRegisters_timeout:
  fixes buffer :: "'a::len word list"
  assumes start:
      "readRegisters_start T reg buffer len (s, w) = (abortTime, bufferSize, buffer1, s1, w1)"
    and starved: "\<And>i. i \<le> k \<Longrightarrow> fst (t_available T (pollWorld T i w1)) < bufferSize"
    and late: "abortTime < fst (t_millis T (snd (t_available T (pollWorld T k w1))))"
  shows "buffer1 = replicate (unat len) 0 @ drop (unat len) buffer
    \<and> (\<exists>w'. readRegisters T reg buffer len (s, w) =
          Some (False, replicate (unat len) 0 @ drop (unat len) buffer,
                s\<lparr>timeoutFlag := True,
                  calls := calls s @
                    (case timeOutHandler s of None \<Rightarrow> [] | Some h \<Rightarrow> [TimeoutCall h])\<rparr>,
                w'))"
proof -
  have b1: "buffer1 = replicate (unat len) 0 @ drop (unat len) buffer"
    and s1: "s1 = s\<lparr>timeoutFlag := False\<rparr>"
    using start by (simp_all add: readRegisters_start_def Let_def)
  obtain j where
    "waitAvailable T (\<lambda>n. n < bufferSize) abortTime w1 = Some (False, pollWorld T (Suc j) w1)"
    using waitAvailable_timeout [of k "\<lambda>n. n < bufferSize" T w1 abortTime] starved late
    by blast
  then have "readRegisters T reg buffer len (s, w) =
      Some (False, buffer1, timedOut s1, pollWorld T (Suc j) w1)"
    by (simp add: readRegisters_def start Let_def)
  moreover have "timedOut s1 =
      s\<lparr>timeoutFlag := True,
        calls := calls s @ (case timeOutHandler s of None \<Rightarrow> [] | Some h \<Rightarrow> [TimeoutCall h])\<rparr>"
    by (simp add: s1 timedOut_def split: option.splits)
  ultimately show ?thesis
    using b1 by simp
qed

theorem readRegisters_timeout_witness:
  "\<exists>w'. readRegisters (simulated 0 0 600) 0 [0x1111, 0x2222 :: u16] 2
      (wireUtil0\<lparr>timeOutHandler := Some 7\<rparr>, bus0)
    = Some (False, [0, 0],
            wireUtil0\<lparr>timeOutHandler := Some 7, timeoutFlag := True, calls := [TimeoutCall 7]\<rparr>,
            w')"
proof -
  let ?T = "simulated 0 0 600"
  let ?w1 = "bus0\<lparr>sent := [[0]], clock := 600\<rparr>"
  have start: "readRegisters_start ?T 0 [0x1111, 0x2222 :: u16] 2
      (wireUtil0\<lparr>timeOutHandler := Some 7\<rparr>, bus0)
    = (1000, 4, [0, 0], wireUtil0\<lparr>timeOutHandler := Some 7\<rparr>, ?w1)"
    by (simp add: readRegisters_start_def sim_defs bus0_def wireUtil0_def sizeof_u16 Let_def
        replicate_two)
  have starved: "\<And>i. i \<le> Suc 0 \<Longrightarrow> fst (t_available ?T (pollWorld ?T i ?w1)) < 4"
  proof -
    fix i :: nat
    assume "i \<le> Suc 0"
    then consider "i = 0" | "i = Suc 0"
      by linarith
    then show "fst (t_available ?T (pollWorld ?T i ?w1)) < 4"
      by cases (simp_all add: pollStep_def sim_defs bus0_def)
  qed
  have late: "1000 < fst (t_millis ?T (snd (t_available ?T (pollWorld ?T (Suc 0) ?w1))))"
    by (simp add: pollStep_def sim_defs bus0_def)
  show ?thesis
    using readRegisters_timeout [OF start starved late]
    by (simp add: wireUtil0_def replicate_two)
qed

text \<open>
  C5. \<open>writeRegister\<close> and the status of \<open>endTransmission\<close>. When the status is not zero
  it returns false, and the log of handler calls grows by one call of the error handler
  with that status if a handler is registered, and by nothing otherwise; the timeout
  handler is never called. When the status is zero it returns true and the object is
  unchanged, so no handler is called.
\<close>

theorem writeRegister_status:
  fixes data :: "'a::len word"
  assumes "t_end_transmission T True (writeRegisters_fill T (address s) reg [data] 1 w)
      = (status, w')"
  shows "(status = 0 \<longrightarrow> writeRegister T reg data (s, w) = (True, s, w'))
    \<and> (status \<noteq> 0 \<longrightarrow> writeRegister T reg data (s, w) =
          (False,
           s\<lparr>calls := calls s @
               (case errorHandler s of None \<Rightarrow> [] | Some h \<Rightarrow> [ErrorCall h status])\<rparr>,
           w'))"
  using assms
  by (simp add: writeRegister_def writeRegisters_def Let_def split: option.splits)

theorem writeRegister_status_witness:
  "writeRegister (simulated 2 2 1) 1 (0x1234 :: u16)
      (wireUtil0\<lparr>errorHandler := Some 5, timeOutHandler := Some 7\<rparr>, bus0)
     = (False,
        wireUtil0\<lparr>errorHandler := Some 5, timeOutHandler := Some 7, calls := [ErrorCall 5 2]\<rparr>,
        bus0\<lparr>sent := [[1, 0x12, 0x34]]\<rparr>)
   \<and> writeRegister (simulated 0 2 1) 1 (0x1234 :: u16) (wireUtil0\<lparr>errorHandler := Some 5\<rparr>, bus0)
     = (True, wireUtil0\<lparr>errorHandler := Some 5\<rparr>,
        bus0\<lparr>sent := [[1, 0x12, 0x34]], pointer := 1, regs := (regs bus0)(1 := 0x1234)\<rparr>)"
proof -
  have a: "t_end_transmission (simulated 2 2 1) True
      (writeRegisters_fill (simulated 2 2 1)
        (address (wireUtil0\<lparr>errorHandler := Some 5, timeOutHandler := Some 7\<rparr>))
        1 [0x1234 :: u16] 1 bus0)
      = (2, bus0\<lparr>sent := [[1, 0x12, 0x34]]\<rparr>)"
    by (simp add: sim_defs writeRegisters_fill_def writeAsBytes_def writeAsBytes_buffer_def
        sizeof_u16 bus0_def wireUtil0_def Let_def)
  have b: "t_end_transmission (simulated 0 2 1) True
      (writeRegisters_fill (simulated 0 2 1) (address (wireUtil0\<lparr>errorHandler := Some 5\<rparr>))
        1 [0x1234 :: u16] 1 bus0)
      = (0, bus0\<lparr>sent := [[1, 0x12, 0x34]], pointer := 1, regs := (regs bus0)(1 := 0x1234)\<rparr>)"
    by (simp add: sim_defs writeRegisters_fill_def writeAsBytes_def writeAsBytes_buffer_def
        sizeof_u16 bus0_def wireUtil0_def Let_def)
  show ?thesis
    using writeRegister_status [OF a] writeRegister_status [OF b]
    by (simp add: wireUtil0_def)
qed

text \<open>
  C7. \<open>writeRegister(addr, value)\<close> is \<open>writeRegisters(addr, buffer, 1)\<close> for the buffer
  that holds that one value: the same platform state afterwards (so the same bytes on
  the bus), the same returned value and the same log of handler calls. Of a longer
  buffer, a call with count 1 uses the first word only.
\<close>

theorem writeRegister_one_element:
  "writeRegister T reg v sw = writeRegisters T reg [v] 1 sw
   \<and> writeRegisters T reg (v # rest) 1 sw = writeRegister T reg v sw"
  by (simp add: writeRegister_def writeRegisters_def writeRegisters_fill_def)

text \<open>
  C9. The two-argument \<open>setCalibration\<close> sets the calibration factor to
  \<open>(r1 + r2) / r2\<close>, computed in \<open>float\<close>, when \<open>r2 > 0.0\<close>, and changes nothing when
  \<open>r2 > 0.0\<close> is false, as it is for a zero and for a negative \<open>r2\<close>: the division is
  then not evaluated.
\<close>

theorem setCalibration2_guard:
  "(f_pos F r2 \<longrightarrow>
      setCalibration2 F r1 r2 s = s\<lparr>calibration := f_div F (f_add F r1 r2) r2\<rparr>)
   \<and> (\<not> f_pos F r2 \<longrightarrow> setCalibration2 F r1 r2 s = s)"
  by (simp add: setCalibration2_def)

theorem setCalibration2_guard_witness:
  "calibration (setCalibration2 real_ops 3 1 (ADS1115_new real_ops)) = 4
   \<and> calibration (setCalibration2 real_ops 3 0 (ADS1115_new real_ops)) = 1
   \<and> calibration (setCalibration2 real_ops 3 (- 2) (ADS1115_new real_ops)) = 1"
  using setCalibration2_guard [of real_ops 1 3 "ADS1115_new real_ops"]
    setCalibration2_guard [of real_ops 0 3 "ADS1115_new real_ops"]
    setCalibration2_guard [of real_ops "- 2" 3 "ADS1115_new real_ops"]
  by (simp add: real_ops_def ADS1115_new_def ADS1x15_new_def setDataRate1115_def)

subsection \<open>Bits\<close>

lemma or_and_not: "(v OR m) AND NOT m = v AND NOT (m :: 'a::len word)"
  by (rule bit_word_eqI) (auto simp add: bit_simps)

lemma bit_8: "bit (8 :: 'a::len word) n = (n = 3 \<and> 3 < LENGTH('a))"
proof -
  have "(8 :: 'a word) = 2 ^ 3"
    by simp
  then show ?thesis
    by (auto simp only: bit_exp_iff possible_bit_word)
qed

lemma and_not_fixed:
  "(v AND NOT m = v) = (\<forall>n. bit m n \<longrightarrow> \<not> bit (v :: 'a::len word) n)"
  by (auto simp add: bit_eq_iff bit_and_iff bit_not_iff dest: bit_imp_le_length)

lemma clear_bit3: "(v AND NOT 8 = v) = (\<not> bit (v :: 'a::len word) 3)"
  unfolding and_not_fixed
proof
  assume a: "\<forall>n. bit (8 :: 'a word) n \<longrightarrow> \<not> bit v n"
  show "\<not> bit v 3"
  proof
    assume b: "bit v 3"
    then have "3 < LENGTH('a)"
      by (rule bit_imp_le_length)
    then have "bit (8 :: 'a word) 3"
      by (simp only: bit_8)
    with a b show False
      by blast
  qed
next
  assume "\<not> bit v 3"
  then show "\<forall>n. bit (8 :: 'a word) n \<longrightarrow> \<not> bit v n"
    by (simp only: bit_8) blast
qed

subsection \<open>The simulated transport with a device that answers\<close>

lemma sim_write:
  "writeRegister (simulated 0 2 t) r (v :: u16) (s, w) =
     (True, s,
      w\<lparr>txbuf := [], sent := sent w @ [[r, ucast (drop_bit 8 v), ucast v]], pointer := r,
        regs := (regs w)(r := v)\<rparr>)"
  by (simp add: writeRegister_def writeRegisters_def writeRegisters_fill_def writeAsBytes_def
      writeAsBytes_buffer_u16 sizeof_u16 sim_defs join_u16 Let_def)

lemma sim_read:
  "readRegister (simulated 0 2 t) r (s, w) =
     Some (regs w r :: u16, s\<lparr>timeoutFlag := False\<rparr>,
       w\<lparr>txbuf := [], sent := sent w @ [[r]], pointer := r, rxbuf := [],
         clock := clock w + t\<rparr>)"
  by (simp add: readRegister_def readRegister_start_def waitAvailable_ready readWord_def
      readAsBytes_def sizeof_u16 sim_defs join_u16 Let_def)

lemma sim_delay: "t_delay_us (simulated a b c) n w = w"
  by (simp add: simulated_def)

subsection \<open>What the bus operations change in the object\<close>

lemma writeRegisters_object:
  "\<exists>cs. fst (snd (writeRegisters T reg buf len (s, w))) = s\<lparr>calls := cs\<rparr>"
proof (cases "errorHandler s")
  case None
  then have "fst (snd (writeRegisters T reg buf len (s, w))) = s\<lparr>calls := calls s\<rparr>"
    by (simp add: writeRegisters_def Let_def)
  then show ?thesis
    by blast
next
  case (Some h)
  then show ?thesis
    by (cases "fst (t_end_transmission T True
          (writeRegisters_fill T (address s) reg buf len w)) = 0")
      (auto simp add: writeRegisters_def Let_def intro: exI [of _ "calls s"])
qed

lemma readRegister_object:
  assumes "readRegister T reg (s, w) = Some (v, s', w')"
  shows "\<exists>b cs. s' = s\<lparr>timeoutFlag := b, calls := cs\<rparr>"
proof -
  have t: "\<exists>cs. timedOut (s\<lparr>timeoutFlag := False\<rparr>) = s\<lparr>timeoutFlag := True, calls := cs\<rparr>"
    by (cases "timeOutHandler s") (auto simp add: timedOut_def intro: exI [of _ "calls s"])
  have f: "s\<lparr>timeoutFlag := False\<rparr> = s\<lparr>timeoutFlag := False, calls := calls s\<rparr>"
    by simp
  from assms
  have "s' = s\<lparr>timeoutFlag := False\<rparr> \<or> s' = timedOut (s\<lparr>timeoutFlag := False\<rparr>)"
    by (auto simp add: readRegister_def readRegister_start_def Let_def
        split: option.splits if_splits)
  with t f show ?thesis
    by metis
qed

lemma analogRead_object:
  fixes s :: "'a ADS1x15" and w :: 'b
  assumes "analogRead T mux (s, w) = Some (r, s', w')"
  shows "chip s' = chip s \<and> currentGain s' = currentGain s \<and> calibration s' = calibration s"
proof -
  define c where
    "c = ((configRegister s AND NOT ADS1x15_MUX_MASK) OR mux_bits mux) OR ADS1x15_OS"
  define wr where
    "wr = writeRegister T (reg_addr CONFIG_REG) c (s\<lparr>configRegister := c\<rparr>, w)"
  define rd :: "(u16 \<times> 'a ADS1x15 \<times> 'b) option" where
    "rd = readRegister T (reg_addr CONVERSION_REG)
      (fst (snd wr), t_delay_us T (conversionDelay (fst (snd wr))) (snd (snd wr)))"
  obtain cs where s2: "fst (snd wr) = s\<lparr>configRegister := c, calls := cs\<rparr>"
    using writeRegisters_object [of T "reg_addr CONFIG_REG" "[c]" 1 "s\<lparr>configRegister := c\<rparr>" w]
    by (auto simp add: writeRegister_def wr_def)
  have eq: "analogRead T mux (s, w) =
      (case rd of None \<Rightarrow> None
       | Some x \<Rightarrow>
           if getFullScaleBits (chip (fst (snd wr))) < shiftConversion (chip (fst (snd wr))) (fst x)
           then Some (shiftConversion (chip (fst (snd wr))) (fst x) OR 0x8000, snd x)
           else Some (shiftConversion (chip (fst (snd wr))) (fst x), snd x))"
    by (simp add: analogRead_def Let_def rd_def wr_def c_def cong: option.case_cong if_cong)
  from assms obtain v where "rd = Some (v, s', w')"
    unfolding eq by (cases rd) (auto split: if_splits)
  then have "\<exists>b cs'. s' = (fst (snd wr))\<lparr>timeoutFlag := b, calls := cs'\<rparr>"
    unfolding rd_def by (rule readRegister_object)
  then obtain b cs' where "s' = (fst (snd wr))\<lparr>timeoutFlag := b, calls := cs'\<rparr>"
    by blast
  with s2 show ?thesis
    by simp
qed

lemma analogRead_ch_object:
  fixes s :: "'a ADS1x15" and w :: 'b
  assumes "analogRead_ch T ch (s, w) = Some (r, s', w')"
  shows "chip s' = chip s \<and> currentGain s' = currentGain s \<and> calibration s' = calibration s"
  using assms analogRead_object [of T _ s w r s' w']
  by (auto simp add: analogRead_ch_def split: if_splits)

lemma sim_analogRead_full_scale:
  "analogRead_ch (simulated 0 2 1) 0
      (setGain GAIN_2 (ADS1115_new real_ops), bus0\<lparr>regs := (regs bus0)(0 := 0x7FFF)\<rparr>)
    = Some (0x7FFF,
        (ADS1115_new real_ops)\<lparr>configRegister := 0xC583\<rparr>,
        bus0\<lparr>regs := (regs bus0)(0 := 0x7FFF, 1 := 0xC583), sent := [[1, 0xC5, 0x83], [0]],
          pointer := 0, clock := 1\<rparr>)"
  by (simp add: analogRead_ch_def analogRead_def sim_read sim_write sim_delay setGain_def
      ADS1115_new_def ADS1x15_new_def setDataRate1115_def
      ADS1x15_MUX_MASK_def ADS1x15_OS_def ADS1x15_DR_MASK_def ADS1x15_GAIN_MASK_def
      defaultConfig_def bus0_def Let_def)

section \<open>The claims on bit toggling and on conversions\<close>

text \<open>
  C3. As stated, a shifted conversion code above the positive full-scale code would come
  back from \<open>analogRead\<close> as its two's-complement sign extension. On the ADS1015 it does
  not: the code sets bit 15 only, where the sign extension of a 12-bit code sets bits 12
  to 15. With the conversion register holding \<open>0xFFF0\<close>, the 12-bit code is \<open>0x0FFF\<close>,
  which is \<open>-1\<close>, above the full-scale code \<open>0x07FF\<close>; its sign extension is \<open>0xFFFF\<close>, but
  \<open>analogRead\<close> returns \<open>0x8FFF\<close>, which is \<open>-28673\<close>.
\<close>

theorem analogRead_ads1015_negative:
  "map_option fst
     (analogRead (simulated 0 2 1) SE0
        (ADS1015_new real_ops, bus0\<lparr>regs := (regs bus0)(0 := 0xFFF0)\<rparr>)) = Some 0x8FFF
   \<and> sint (0x8FFF :: u16) = - 28673
   \<and> shiftConversion ADS1015 0xFFF0 = 0x0FFF
   \<and> getFullScaleBits ADS1015 < shiftConversion ADS1015 0xFFF0
   \<and> sint (signed_take_bit 11 (shiftConversion ADS1015 0xFFF0)) = - 1"
  by (simp add: analogRead_def sim_read sim_write sim_delay ADS1015_new_def ADS1x15_new_def
      setDataRate1015_def ADS1x15_MUX_MASK_def ADS1x15_OS_def ADS1x15_DR_MASK_def
      defaultConfig_def bus0_def Let_def)

text \<open>
  C6. As stated, \<open>setRegisterBit(reg, 3, true)\<close> followed by
  \<open>setRegisterBit(reg, 3, false)\<close> would restore the register. It does not when bit 3 was
  set to begin with: on the simulated device, which stores and echoes every word and
  never times out, register 1 holds \<open>0x0008\<close> before the two calls and \<open>0x0000\<close> after
  them.
\<close>

theorem setRegisterBit_toggle_counterexample:
  "setRegisterBit TYPE(16) (simulated 0 2 1) 1 3 True
      (wireUtil0, bus0\<lparr>regs := (regs bus0)(1 := 0x0008)\<rparr>)
     = Some (True, wireUtil0,
         bus0\<lparr>regs := (regs bus0)(1 := 0x0008), sent := [[1], [1, 0x00, 0x08]],
           pointer := 1, clock := 1\<rparr>)
   \<and> setRegisterBit TYPE(16) (simulated 0 2 1) 1 3 False
      (wireUtil0,
       bus0\<lparr>regs := (regs bus0)(1 := 0x0008), sent := [[1], [1, 0x00, 0x08]],
         pointer := 1, clock := 1\<rparr>)
     = Some (True, wireUtil0,
         bus0\<lparr>regs := (regs bus0)(1 := 0x0000),
           sent := [[1], [1, 0x00, 0x08], [1], [1, 0x00, 0x00]], pointer := 1, clock := 2\<rparr>)
   \<and> regs (bus0\<lparr>regs := (regs bus0)(1 := 0x0000),
           sent := [[1], [1, 0x00, 0x08], [1], [1, 0x00, 0x00]], pointer := 1, clock := 2\<rparr>) 1
     \<noteq> regs (bus0\<lparr>regs := (regs bus0)(1 := 0x0008)\<rparr>) 1"
  by (simp add: setRegisterBit_def sim_read sim_write bus0_def wireUtil0_def Let_def)

text \<open>
  C6, amended. Let the transport store and echo: \<open>held w r\<close> is the word register \<open>r\<close>
  holds in the platform state \<open>w\<close>, a \<open>writeRegister\<close> changes \<open>held\<close> at the register
  written and nowhere else, and a \<open>readRegister\<close> returns the word held and changes
  nothing held. Then \<open>setRegisterBit(reg, 3, true)\<close> followed by
  \<open>setRegisterBit(reg, 3, false)\<close> leaves every register as it was, except that bit 3 of
  \<open>reg\<close> is clear. So the original value is restored exactly when its bit 3 was clear.
\<close>

theorem setRegisterBit_set_then_clear:
  fixes held :: "'w \<Rightarrow> u8 \<Rightarrow> 'a::len word" and s :: "'s wireUtil_scheme"
  assumes stores: "\<And>r v (x :: 's wireUtil_scheme) y.
        held (snd (snd (writeRegister T r v (x, y)))) = (held y)(r := v)"
    and echoes: "\<And>r (x :: 's wireUtil_scheme) y.
        \<exists>x' y'. readRegister T r (x, y) = Some (held y r, x', y') \<and> held y' = held y"
  shows "\<exists>ok1 s1 w1 ok2 s2 w2.
      setRegisterBit TYPE('a) T reg 3 True (s, w) = Some (ok1, s1, w1)
    \<and> setRegisterBit TYPE('a) T reg 3 False (s1, w1) = Some (ok2, s2, w2)
    \<and> held w2 = (held w)(reg := held w reg AND NOT 8)
    \<and> (held w2 = held w) = (\<not> bit (held w reg) 3)"
proof -
  obtain sa wa where ra: "readRegister T reg (s, w) = Some (held w reg, sa, wa)"
    and ha: "held wa = held w"
    using echoes by blast
  obtain ok1 s1 w1 where wr1: "writeRegister T reg (held w reg OR 8) (sa, wa) = (ok1, s1, w1)"
    by (metis prod_cases3)
  have h1: "held w1 = (held w)(reg := held w reg OR 8)"
    using stores [of reg "held w reg OR 8" sa wa] wr1 ha by simp
  have set1: "setRegisterBit TYPE('a) T reg 3 True (s, w) = Some (ok1, s1, w1)"
    using wr1 by (simp add: setRegisterBit_def ra Let_def)
  obtain sb wb where rb: "readRegister T reg (s1, w1) = Some (held w1 reg, sb, wb)"
    and hb: "held wb = held w1"
    using echoes by blast
  obtain ok2 s2 w2 where
    wr2: "writeRegister T reg (held w1 reg AND NOT 8) (sb, wb) = (ok2, s2, w2)"
    by (metis prod_cases3)
  have h2: "held w2 = (held w1)(reg := held w1 reg AND NOT 8)"
    using stores [of reg "held w1 reg AND NOT 8" sb wb] wr2 hb by simp
  have set2: "setRegisterBit TYPE('a) T reg 3 False (s1, w1) = Some (ok2, s2, w2)"
    using wr2 by (simp add: setRegisterBit_def rb Let_def)
  have fin: "held w2 = (held w)(reg := held w reg AND NOT 8)"
    unfolding h2 h1 using or_and_not [of "held w reg" 8] by simp
  have "(held w2 = held w) = (held w reg AND NOT 8 = held w reg)"
    unfolding fin by (metis fun_upd_idem_iff)
  then have "(held w2 = held w) = (\<not> bit (held w reg) 3)"
    by (simp only: clear_bit3)
  with set1 set2 fin show ?thesis
    by blast
qed

theorem setRegisterBit_set_then_clear_witness:
  "\<exists>ok1 s1 w1 ok2 s2 w2.
      setRegisterBit TYPE(16) (simulated 0 2 1) 1 3 True
        (wireUtil0, bus0\<lparr>regs := (regs bus0)(1 := 0x8583)\<rparr>) = Some (ok1, s1, w1)
    \<and> setRegisterBit TYPE(16) (simulated 0 2 1) 1 3 False (s1, w1) = Some (ok2, s2, w2)
    \<and> regs w2 1 = 0x8583"
proof -
  have stores: "\<And>r v s w.
      regs (snd (snd (writeRegister (simulated 0 2 1) r (v :: u16) (s :: wireUtil, w))))
        = (regs w)(r := v)"
    by (simp add: sim_write)
  have echoes: "\<And>r s w. \<exists>s' w'.
      readRegister (simulated 0 2 1) r (s :: wireUtil, w) = Some (regs w r :: u16, s', w')
        \<and> regs w' = regs w"
    by (simp add: sim_read)
  obtain ok1 s1 w1 ok2 s2 w2 where
    "setRegisterBit TYPE(16) (simulated 0 2 1) 1 3 True
        (wireUtil0, bus0\<lparr>regs := (regs bus0)(1 := 0x8583)\<rparr>) = Some (ok1, s1, w1)"
    "setRegisterBit TYPE(16) (simulated 0 2 1) 1 3 False (s1, w1) = Some (ok2, s2, w2)"
    "regs w2 = (regs (bus0\<lparr>regs := (regs bus0)(1 := 0x8583)\<rparr>))
        (1 := regs (bus0\<lparr>regs := (regs bus0)(1 := 0x8583)\<rparr>) 1 AND NOT 8)"
    using setRegisterBit_set_then_clear [of regs "simulated 0 2 1", OF stores echoes,
        of 1 wireUtil0 "bus0\<lparr>regs := (regs bus0)(1 := 0x8583)\<rparr>"]
    by blast
  moreover from this have "regs w2 1 = 0x8583"
    by simp
  ultimately show ?thesis
    by blast
qed

text \<open>
  What \<open>analogReadVoltage\<close> computes: the product, in \<open>float\<close>, of the full-scale
  voltage of the current gain times the calibration factor, and of the quotient of the
  reading by the full-scale code, where the reading is the \<open>uint16_t\<close> that
  \<open>analogRead(ch)\<close> returns, converted to \<open>float\<close> as an unsigned value. With the gain
  \<open>GAIN_2\<close> and a reading equal to the full-scale code it is \<open>2.048\<close> times the
  calibration factor, in every arithmetic where a product with the quotient of the
  full-scale code by itself changes nothing. \<open>setGain\<close> selects the gain, and both
  constructors set the calibration factor to \<open>1.0\<close>.
\<close>

theorem analogReadVoltage_scaling:
  fixes s :: "'f ADS1x15" and w :: 'w
  assumes rd: "analogRead_ch T ch (s, w) = Some (raw, s', w')"
  shows "analogReadVoltage F T ch (s, w) =
      Some (f_mul F
              (f_mul F
                 (f_lit F (case currentGain s of
                             GAIN_23 \<Rightarrow> 6.144 | GAIN_1 \<Rightarrow> 4.096 | GAIN_2 \<Rightarrow> 2.048
                           | GAIN_4 \<Rightarrow> 1.024 | GAIN_8 \<Rightarrow> 0.512 | GAIN_16 \<Rightarrow> 0.256))
                 (calibration s))
              (f_div F (f_of_u16 F raw) (f_of_u16 F (getFullScaleBits (chip s)))),
            s', w')
    \<and> (currentGain s = GAIN_2 \<and> raw = getFullScaleBits (chip s)
         \<and> (\<forall>v. f_mul F v (f_div F (f_of_u16 F raw) (f_of_u16 F raw)) = v)
       \<longrightarrow> analogReadVoltage F T ch (s, w) =
             Some (f_mul F (f_lit F 2.048) (calibration s), s', w'))
    \<and> currentGain (setGain GAIN_2 s) = GAIN_2
    \<and> calibration (ADS1115_new F) = f_lit F 1.0
    \<and> calibration (ADS1015_new F) = f_lit F 1.0"
proof -
  have keep: "chip s' = chip s" "currentGain s' = currentGain s" "calibration s' = calibration s"
    using analogRead_ch_object [OF rd] by simp_all
  have general: "analogReadVoltage F T ch (s, w) =
      Some (f_mul F
              (f_mul F
                 (f_lit F (case currentGain s of
                             GAIN_23 \<Rightarrow> 6.144 | GAIN_1 \<Rightarrow> 4.096 | GAIN_2 \<Rightarrow> 2.048
                           | GAIN_4 \<Rightarrow> 1.024 | GAIN_8 \<Rightarrow> 0.512 | GAIN_16 \<Rightarrow> 0.256))
                 (calibration s))
              (f_div F (f_of_u16 F raw) (f_of_u16 F (getFullScaleBits (chip s)))),
            s', w')"
    by (cases "currentGain s")
      (simp_all add: analogReadVoltage_def rd getFullScaleV_def keep Let_def)
  moreover have "currentGain s = GAIN_2 \<and> raw = getFullScaleBits (chip s)
         \<and> (\<forall>v. f_mul F v (f_div F (f_of_u16 F raw) (f_of_u16 F raw)) = v)
       \<longrightarrow> analogReadVoltage F T ch (s, w) =
             Some (f_mul F (f_lit F 2.048) (calibration s), s', w')"
    unfolding general by auto
  moreover have "currentGain (setGain GAIN_2 s) = GAIN_2"
    by (simp add: setGain_def)
  moreover have "calibration (ADS1115_new F) = f_lit F 1.0"
    by (simp add: ADS1115_new_def ADS1x15_new_def setDataRate1115_def)
  moreover have "calibration (ADS1015_new F) = f_lit F 1.0"
    by (simp add: ADS1015_new_def ADS1x15_new_def setDataRate1015_def)
  ultimately show ?thesis
    by blast
qed

theorem analogReadVoltage_scaling_witness:
  "analogReadVoltage real_ops (simulated 0 2 1) 0
      (setGain GAIN_2 (ADS1115_new real_ops), bus0\<lparr>regs := (regs bus0)(0 := 0x7FFF)\<rparr>)
    = Some (2.048,
        (ADS1115_new real_ops)\<lparr>configRegister := 0xC583\<rparr>,
        bus0\<lparr>regs := (regs bus0)(0 := 0x7FFF, 1 := 0xC583), sent := [[1, 0xC5, 0x83], [0]],
          pointer := 0, clock := 1\<rparr>)"
proof -
  have g: "currentGain (setGain GAIN_2 (ADS1115_new real_ops)) = GAIN_2"
    and c: "chip (setGain GAIN_2 (ADS1115_new real_ops)) = ADS1115"
    and k: "calibration (setGain GAIN_2 (ADS1115_new real_ops)) = 1"
    by (simp_all add: setGain_def ADS1115_new_def ADS1x15_new_def setDataRate1115_def
        real_ops_def)
  have u: "\<forall>v. f_mul real_ops v
      (f_div real_ops (f_of_u16 real_ops 0x7FFF) (f_of_u16 real_ops 0x7FFF)) = v"
    by (simp add: real_ops_def)
  show ?thesis
    using analogReadVoltage_scaling [OF sim_analogRead_full_scale, of real_ops] g c k u
    by (simp add: real_ops_def)
qed

text \<open>
  C8. As stated, the computed voltage would be the full-scale voltage times the
  calibration factor times the ratio of the raw reading to the full-scale code. For a
  negative reading it is not: \<open>analogRead(uint8_t)\<close> returns the signed result of the
  conversion as a \<open>uint16_t\<close>, and \<open>analogReadVoltage\<close> converts that unsigned value.
  With an ADS1115 as constructed, the gain \<open>GAIN_2\<close> and the conversion register
  holding \<open>0xFFFF\<close>, the reading is \<open>-1\<close>, but the voltage is the product of
  \<open>2.048 * 1.0\<close> and \<open>65535 / 32767\<close>, in the reals above \<open>4\<close>, where the ratio of the
  reading \<open>-1\<close> to the full-scale code is negative.
\<close>

theorem analogReadVoltage_negative_reading:
  "analogReadVoltage F (simulated 0 2 1) 0
      (setGain GAIN_2 (ADS1115_new F), bus0\<lparr>regs := (regs bus0)(0 := 0xFFFF)\<rparr>)
    = Some (f_mul F (f_mul F (f_lit F 2.048) (f_lit F 1.0))
              (f_div F (f_of_u16 F 0xFFFF) (f_of_u16 F 0x7FFF)),
        (ADS1115_new F)\<lparr>configRegister := 0xC583\<rparr>,
        bus0\<lparr>regs := (regs bus0)(0 := 0xFFFF, 1 := 0xC583), sent := [[1, 0xC5, 0x83], [0]],
          pointer := 0, clock := 1\<rparr>)
   \<and> map_option fst
        (analogRead (simulated 0 2 1) SE0
          (setGain GAIN_2 (ADS1115_new F), bus0\<lparr>regs := (regs bus0)(0 := 0xFFFF)\<rparr>))
      = Some 0xFFFF
   \<and> sint (0xFFFF :: u16) = - 1
   \<and> f_of_u16 real_ops 0xFFFF = 65535
   \<and> f_mul real_ops (f_mul real_ops (f_lit real_ops 2.048) (f_lit real_ops 1.0))
        (f_div real_ops (f_of_u16 real_ops 0xFFFF) (f_of_u16 real_ops 0x7FFF))
      = 2.048 * (65535 / 32767)
   \<and> (4 :: real) < 2.048 * (65535 / 32767)"
  by (simp add: analogReadVoltage_def getFullScaleV_def analogRead_ch_def analogRead_def
      sim_read sim_write sim_delay setGain_def
      ADS1115_new_def ADS1x15_new_def setDataRate1115_def
      ADS1x15_MUX_MASK_def ADS1x15_OS_def ADS1x15_DR_MASK_def ADS1x15_GAIN_MASK_def
      defaultConfig_def bus0_def Let_def real_ops_def)

subsection \<open>What a conversion does\<close>

lemma config_fields:
  fixes cfg :: u16
  assumes "m AND ADS1x15_MUX_MASK = m" and "m AND ADS1x15_OS = 0"
  shows "(((cfg AND NOT ADS1x15_MUX_MASK) OR m) OR ADS1x15_OS) AND ADS1x15_MUX_MASK = m"
    and "(((cfg AND NOT ADS1x15_MUX_MASK) OR m) OR ADS1x15_OS) AND ADS1x15_OS = ADS1x15_OS"
proof -
  have z: "ADS1x15_OS AND ADS1x15_MUX_MASK = 0"
    by (simp add: ADS1x15_OS_def ADS1x15_MUX_MASK_def)
  show "(((cfg AND NOT ADS1x15_MUX_MASK) OR m) OR ADS1x15_OS) AND ADS1x15_MUX_MASK = m"
    by (simp add: bit.conj_disj_distrib2 and.assoc z assms)
  show "(((cfg AND NOT ADS1x15_MUX_MASK) OR m) OR ADS1x15_OS) AND ADS1x15_OS = ADS1x15_OS"
    by (simp add: bit.conj_disj_distrib2)
qed

lemma mux_in_mask: "mux_bits mux AND ADS1x15_MUX_MASK = mux_bits mux"
  and mux_not_os: "mux_bits mux AND ADS1x15_OS = 0"
  by (cases mux; simp add: ADS1x15_MUX_MASK_def ADS1x15_OS_def)+

lemma writeRegister_bus_u16:
  "snd (snd (writeRegister T reg (c :: u16) (s, w))) =
    snd (t_end_transmission T True
      (t_write T (ucast c) (t_write T (ucast (drop_bit 8 c))
        (t_write T reg (t_begin_transmission T (address s) w)))))"
  by (simp add: writeRegister_def writeRegisters_def writeRegisters_fill_def writeAsBytes_def
      writeAsBytes_buffer_u16 sizeof_u16 Let_def split: option.splits)


lemma analogRead_effect:
  fixes s :: "'f ADS1x15" and w :: 'w
  shows "(let c = ((configRegister s AND NOT ADS1x15_MUX_MASK) OR mux_bits mux) OR ADS1x15_OS;
              wr = writeRegister T (reg_addr CONFIG_REG) c (s\<lparr>configRegister := c\<rparr>, w)
          in analogRead T mux (s, w) =
               (case readRegister T (reg_addr CONVERSION_REG)
                       (fst (snd wr), t_delay_us T (conversionDelay s) (snd (snd wr))) of
                  None \<Rightarrow> None
                | Some x \<Rightarrow>
                    if getFullScaleBits (chip s) < shiftConversion (chip s) (fst x)
                    then Some (shiftConversion (chip s) (fst x) OR 0x8000, snd x)
                    else Some (shiftConversion (chip s) (fst x), snd x))
             \<and> (\<forall>r s' w'. analogRead T mux (s, w) = Some (r, s', w') \<longrightarrow> configRegister s' = c))"
proof -
  define c where
    "c = ((configRegister s AND NOT ADS1x15_MUX_MASK) OR mux_bits mux) OR ADS1x15_OS"
  define wr where
    "wr = writeRegister T (reg_addr CONFIG_REG) c (s\<lparr>configRegister := c\<rparr>, w)"
  define rd :: "(u16 \<times> 'f ADS1x15 \<times> 'w) option" where
    "rd = readRegister T (reg_addr CONVERSION_REG)
      (fst (snd wr), t_delay_us T (conversionDelay s) (snd (snd wr)))"
  obtain cs where s2: "fst (snd wr) = s\<lparr>configRegister := c, calls := cs\<rparr>"
    using writeRegisters_object [of T "reg_addr CONFIG_REG" "[c]" 1 "s\<lparr>configRegister := c\<rparr>" w]
    by (auto simp add: writeRegister_def wr_def)
  have eq: "analogRead T mux (s, w) =
      (case rd of None \<Rightarrow> None
       | Some x \<Rightarrow>
           if getFullScaleBits (chip s) < shiftConversion (chip s) (fst x)
           then Some (shiftConversion (chip s) (fst x) OR 0x8000, snd x)
           else Some (shiftConversion (chip s) (fst x), snd x))"
    using s2
    by (simp add: analogRead_def Let_def rd_def wr_def c_def cong: option.case_cong if_cong)
  have "configRegister s' = c" if "analogRead T mux (s, w) = Some (r, s', w')" for r s' w'
  proof -
    from that obtain v where "rd = Some (v, s', w')"
      unfolding eq by (cases rd) (auto split: if_splits)
    then have "\<exists>b cs'. s' = (fst (snd wr))\<lparr>timeoutFlag := b, calls := cs'\<rparr>"
      unfolding rd_def by (rule readRegister_object)
    with s2 show ?thesis
      by auto
  qed
  with eq show ?thesis
    unfolding Let_def c_def [symmetric] wr_def [symmetric] rd_def [symmetric] by blast
qed


text \<open>
  C10. For a channel index above 3 the channel-indexed \<open>analogRead\<close> returns \<open>0\<close> and
  leaves the object and the platform state as they were, whatever the transport: no bus
  primitive is called and the configuration mirror is not touched. The channels \<open>0\<close> to
  \<open>3\<close> select \<open>SE0\<close> to \<open>SE3\<close>, the single-ended codes \<open>4 + ch\<close> of the mux field, and
  trigger a conversion: the configuration word \<open>c\<close> has the mux field of the selection
  and the bit \<open>ADS1x15_OS\<close> set, its two bytes are written to the configuration register
  in one transaction, the conversion delay is waited, the conversion register is read
  and its shifted value is the result, and the mirror holds \<open>c\<close> afterwards.
\<close>

theorem analogRead_ch_channels:
  fixes s :: "'f ADS1x15" and w :: 'w
  shows "(3 < ch \<longrightarrow> analogRead_ch T ch (s, w) = Some (0, s, w))
   \<and> ((ch, mux) \<in> {(0, SE0), (1, SE1), (2, SE2), (3, SE3)} \<longrightarrow>
       (let c = ((configRegister s AND NOT ADS1x15_MUX_MASK) OR mux_bits mux) OR ADS1x15_OS;
            wr = writeRegister T (reg_addr CONFIG_REG) c (s\<lparr>configRegister := c\<rparr>, w)
        in mux_bits mux = push_bit 12 (4 + ucast ch)
         \<and> c AND ADS1x15_MUX_MASK = mux_bits mux
         \<and> c AND ADS1x15_OS = ADS1x15_OS
         \<and> snd (snd wr) =
             snd (t_end_transmission T True
               (t_write T (ucast c) (t_write T (ucast (drop_bit 8 c))
                 (t_write T 0x01 (t_begin_transmission T (address s) w)))))
         \<and> analogRead_ch T ch (s, w) =
             (case readRegister T 0x00
                     (fst (snd wr), t_delay_us T (conversionDelay s) (snd (snd wr))) of
                None \<Rightarrow> None
              | Some x \<Rightarrow>
                  if getFullScaleBits (chip s) < shiftConversion (chip s) (fst x)
                  then Some (shiftConversion (chip s) (fst x) OR 0x8000, snd x)
                  else Some (shiftConversion (chip s) (fst x), snd x))
         \<and> (\<forall>r s' w'. analogRead_ch T ch (s, w) = Some (r, s', w') \<longrightarrow> configRegister s' = c)))"
proof -
  have high: "3 < ch \<longrightarrow> analogRead_ch T ch (s, w) = Some (0, s, w)"
    by (auto simp add: analogRead_ch_def)
  have low: "(let c = ((configRegister s AND NOT ADS1x15_MUX_MASK) OR mux_bits mux) OR ADS1x15_OS;
            wr = writeRegister T (reg_addr CONFIG_REG) c (s\<lparr>configRegister := c\<rparr>, w)
        in mux_bits mux = push_bit 12 (4 + ucast ch)
         \<and> c AND ADS1x15_MUX_MASK = mux_bits mux
         \<and> c AND ADS1x15_OS = ADS1x15_OS
         \<and> snd (snd wr) =
             snd (t_end_transmission T True
               (t_write T (ucast c) (t_write T (ucast (drop_bit 8 c))
                 (t_write T 0x01 (t_begin_transmission T (address s) w)))))
         \<and> analogRead_ch T ch (s, w) =
             (case readRegister T 0x00
                     (fst (snd wr), t_delay_us T (conversionDelay s) (snd (snd wr))) of
                None \<Rightarrow> None
              | Some x \<Rightarrow>
                  if getFullScaleBits (chip s) < shiftConversion (chip s) (fst x)
                  then Some (shiftConversion (chip s) (fst x) OR 0x8000, snd x)
                  else Some (shiftConversion (chip s) (fst x), snd x))
         \<and> (\<forall>r s' w'. analogRead_ch T ch (s, w) = Some (r, s', w') \<longrightarrow> configRegister s' = c))"
    if sel: "(ch, mux) \<in> {(0, SE0), (1, SE1), (2, SE2), (3, SE3)}"
  proof -
    have ch: "analogRead_ch T ch (s, w) = analogRead T mux (s, w)"
      using sel by (auto simp add: analogRead_ch_def)
    have code: "mux_bits mux = push_bit 12 (4 + ucast ch)"
      using sel by auto
    define c where
      "c = ((configRegister s AND NOT ADS1x15_MUX_MASK) OR mux_bits mux) OR ADS1x15_OS"
    define wr where
      "wr = writeRegister T (reg_addr CONFIG_REG) c (s\<lparr>configRegister := c\<rparr>, w)"
    have f1: "c AND ADS1x15_MUX_MASK = mux_bits mux"
      unfolding c_def by (rule config_fields(1) [OF mux_in_mask mux_not_os])
    have f2: "c AND ADS1x15_OS = ADS1x15_OS"
      unfolding c_def by (rule config_fields(2) [OF mux_in_mask mux_not_os])
    have f3: "snd (snd wr) =
        snd (t_end_transmission T True
          (t_write T (ucast c) (t_write T (ucast (drop_bit 8 c))
            (t_write T 0x01 (t_begin_transmission T (address s) w)))))"
      unfolding wr_def by (simp add: writeRegister_bus_u16)
    have eff: "analogRead T mux (s, w) =
        (case readRegister T (reg_addr CONVERSION_REG)
                (fst (snd wr), t_delay_us T (conversionDelay s) (snd (snd wr))) of
           None \<Rightarrow> None
         | Some x \<Rightarrow>
             if getFullScaleBits (chip s) < shiftConversion (chip s) (fst x)
             then Some (shiftConversion (chip s) (fst x) OR 0x8000, snd x)
             else Some (shiftConversion (chip s) (fst x), snd x))
       \<and> (\<forall>r s' w'. analogRead T mux (s, w) = Some (r, s', w') \<longrightarrow> configRegister s' = c)"
      using analogRead_effect [where s = s and mux = mux and T = T and w = w]
      unfolding Let_def c_def wr_def .
    have f4: "analogRead_ch T ch (s, w) =
        (case readRegister T 0x00
                (fst (snd wr), t_delay_us T (conversionDelay s) (snd (snd wr))) of
           None \<Rightarrow> None
         | Some x \<Rightarrow>
             if getFullScaleBits (chip s) < shiftConversion (chip s) (fst x)
             then Some (shiftConversion (chip s) (fst x) OR 0x8000, snd x)
             else Some (shiftConversion (chip s) (fst x), snd x))"
      unfolding ch using eff by simp
    have f5: "\<forall>r s' w'. analogRead_ch T ch (s, w) = Some (r, s', w') \<longrightarrow> configRegister s' = c"
      unfolding ch using eff by blast
    show ?thesis
      unfolding Let_def c_def [symmetric] wr_def [symmetric]
      using code f1 f2 f3 f4 f5 by blast
  qed
  from high low show ?thesis
    by blast
qed


lemma sim_analogRead_ch2:
  "analogRead_ch (simulated 0 2 1) 2
      (ADS1115_new real_ops, bus0\<lparr>regs := (regs bus0)(0 := 0x1234)\<rparr>)
    = Some (0x1234,
        (ADS1115_new real_ops)\<lparr>configRegister := 0xE583\<rparr>,
        bus0\<lparr>regs := (regs bus0)(0 := 0x1234, 1 := 0xE583), sent := [[1, 0xE5, 0x83], [0]],
          pointer := 0, clock := 1\<rparr>)"
  by (simp add: analogRead_ch_def analogRead_def sim_read sim_write sim_delay
      ADS1115_new_def ADS1x15_new_def setDataRate1115_def
      ADS1x15_MUX_MASK_def ADS1x15_OS_def ADS1x15_DR_MASK_def
      defaultConfig_def bus0_def Let_def)

theorem analogRead_ch_channels_witness:
  "analogRead_ch (simulated 0 2 1) 4 (ADS1115_new real_ops, bus0)
      = Some (0, ADS1115_new real_ops, bus0)
   \<and> (2 :: u8, SE2) \<in> {(0, SE0), (1, SE1), (2, SE2), (3, SE3)}
   \<and> (\<exists>r s' w'. analogRead_ch (simulated 0 2 1) 2
          (ADS1115_new real_ops, bus0\<lparr>regs := (regs bus0)(0 := 0x1234)\<rparr>) = Some (r, s', w')
        \<and> configRegister s' = 0xE583
        \<and> configRegister s' AND ADS1x15_MUX_MASK = mux_bits SE2
        \<and> configRegister s' AND ADS1x15_OS = ADS1x15_OS)"
proof -
  have hi: "(3 :: u8) < 4"
    by simp
  have sel: "(2 :: u8, SE2) \<in> {(0, SE0), (1, SE1), (2, SE2), (3, SE3)}"
    by simp
  have c: "((configRegister (ADS1115_new real_ops) AND NOT ADS1x15_MUX_MASK) OR mux_bits SE2)
      OR ADS1x15_OS = 0xE583"
    by (simp add: ADS1115_new_def ADS1x15_new_def setDataRate1115_def ADS1x15_MUX_MASK_def
        ADS1x15_OS_def ADS1x15_DR_MASK_def defaultConfig_def)
  have a: "analogRead_ch (simulated 0 2 1) 4 (ADS1115_new real_ops, bus0)
      = Some (0, ADS1115_new real_ops, bus0)"
    using analogRead_ch_channels [of 4 "simulated 0 2 1" "ADS1115_new real_ops" bus0] hi
    by blast
  have b: "configRegister s' = 0xE583
      \<and> configRegister s' AND ADS1x15_MUX_MASK = mux_bits SE2
      \<and> configRegister s' AND ADS1x15_OS = ADS1x15_OS"
    if "analogRead_ch (simulated 0 2 1) 2
          (ADS1115_new real_ops, bus0\<lparr>regs := (regs bus0)(0 := 0x1234)\<rparr>) = Some (r, s', w')"
    for r s' w'
    using that sel
      analogRead_ch_channels [of 2 "simulated 0 2 1" "ADS1115_new real_ops"
        "bus0\<lparr>regs := (regs bus0)(0 := 0x1234)\<rparr>" SE2]
    unfolding Let_def c by metis
  from a sel b sim_analogRead_ch2 show ?thesis
    by blast
qed

section \<open>A deadline that is never seen as passed\<close>

text \<open>
  The loop returns only if some round finds data or reads the clock past the deadline.
\<close>

lemma waitAvailable_returns:
  assumes "waitAvailable T waiting a w = Some r"
  shows "\<exists>k. \<not> waiting (fst (t_available T (pollWorld T k w)))
     \<or> a < fst (t_millis T (snd (t_available T (pollWorld T k w))))"
  using assms
proof (induction T waiting a w r rule: waitAvailable.raw_induct)
  case (1 f T waiting a w r)
  show ?case
  proof (cases "waiting (fst (t_available T w))")
    case False
    then have "\<not> waiting (fst (t_available T (pollWorld T 0 w)))"
      by simp
    then show ?thesis
      by blast
  next
    case True
    show ?thesis
    proof (cases "a < fst (t_millis T (snd (t_available T w)))")
      case True
      then have "a < fst (t_millis T (snd (t_available T (pollWorld T 0 w))))"
        by simp
      then show ?thesis
        by blast
    next
      case False
      with True 1(2) have "f T waiting a (pollStep T w) = Some r"
        by (simp add: Let_def pollStep_def)
      moreover have "waitAvailable T waiting a (pollStep T w) = Some r"
        using 1(3) True False by (simp add: waitAvailable_again)
      ultimately obtain k where
        "\<not> waiting (fst (t_available T (pollWorld T k (pollStep T w))))
          \<or> a < fst (t_millis T (snd (t_available T (pollWorld T k (pollStep T w)))))"
        using 1(1) by blast
      then have "\<not> waiting (fst (t_available T (pollWorld T (Suc k) w)))
          \<or> a < fst (t_millis T (snd (t_available T (pollWorld T (Suc k) w))))"
        by simp
      then show ?thesis
        by blast
    qed
  qed
qed (rule assms)

lemma waitAvailable_forever:
  assumes "\<And>k. waiting (fst (t_available T (pollWorld T k w)))"
    and "\<And>k. \<not> a < fst (t_millis T (snd (t_available T (pollWorld T k w))))"
  shows "waitAvailable T waiting a w = None"
  using assms waitAvailable_returns [of T waiting a w]
  by (cases "waitAvailable T waiting a w") auto

lemma sim_poll_rxbuf: "rxbuf (pollWorld (simulated st n t) k w) = rxbuf w"
  by (induction k arbitrary: w) (simp_all add: pollStep_def simulated_def)

text \<open>
  The timeout test is \<open>abortTime < millis()\<close> on 32-bit values. When the deadline
  \<open>millis() + timeoutTime\<close> comes to \<open>2 ^ 32 - 1\<close> no clock reading is above it: for
  every transport that keeps the available count below \<open>bufferSize\<close>, \<open>readRegisters\<close>
  then does not return.
\<close>

lemma readRegisters_deadline_max:
  fixes buffer :: "'a::len word list"
  assumes start: "readRegisters_start T reg buffer len (s, w) = (- 1, bufferSize, buffer1, s1, w1)"
    and starved: "\<And>k. fst (t_available T (pollWorld T k w1)) < bufferSize"
  shows "readRegisters T reg buffer len (s, w) = None"
proof -
  have "\<And>k. \<not> (- 1 :: u32) < fst (t_millis T (snd (t_available T (pollWorld T k w1))))"
    by (simp only: word_order.extremum_strict not_False_eq_True)
  with starved have "waitAvailable T (\<lambda>n. n < bufferSize) (- 1) w1 = None"
    by (intro waitAvailable_forever)
  then show ?thesis
    by (simp add: readRegisters_def start Let_def)
qed

text \<open>
  C4. As stated, \<open>readRegisters\<close> would return false, with the flag set and the handler
  called, whenever the transport never makes the requested byte count available. It
  does not return at all when the deadline wraps to \<open>2 ^ 32 - 1\<close>: with a transport that
  never has data, \<open>timeoutTime\<close> at \<open>1000\<close> and the clock at \<open>0xFFFFFC17\<close> when the
  deadline is computed, the loop runs forever, however the clock advances.
\<close>

theorem readRegisters_rollover:
  "readRegisters (simulated 0 0 1) 0 [0x1111, 0x2222 :: u16] 2
      (wireUtil0, bus0\<lparr>clock := 0xFFFFFC17\<rparr>) = None"
proof -
  let ?T = "simulated 0 0 1"
  let ?w1 = "bus0\<lparr>sent := [[0]], clock := 0xFFFFFC18\<rparr>"
  have start: "readRegisters_start ?T 0 [0x1111, 0x2222 :: u16] 2
      (wireUtil0, bus0\<lparr>clock := 0xFFFFFC17\<rparr>) = (0xFFFFFFFF, 4, [0, 0], wireUtil0, ?w1)"
    by (simp add: readRegisters_start_def sim_defs bus0_def wireUtil0_def sizeof_u16 Let_def
        replicate_two)
  have "\<And>k. fst (t_available ?T (pollWorld ?T k ?w1)) < 4"
  proof -
    fix k
    have "fst (t_available ?T (pollWorld ?T k ?w1)) = length (rxbuf (pollWorld ?T k ?w1))"
      by (simp add: simulated_def)
    then show "fst (t_available ?T (pollWorld ?T k ?w1)) < 4"
      by (simp add: sim_poll_rxbuf bus0_def)
  qed
  moreover have "\<And>k. \<not> (0xFFFFFFFF :: u32)
      < fst (t_millis ?T (snd (t_available ?T (pollWorld ?T k ?w1))))"
  proof -
    fix k
    have "(0xFFFFFFFF :: u32) = - 1"
      by simp
    then show "\<not> (0xFFFFFFFF :: u32)
        < fst (t_millis ?T (snd (t_available ?T (pollWorld ?T k ?w1))))"
      by (simp only: word_order.extremum_strict not_False_eq_True)
  qed
  ultimately have "waitAvailable ?T (\<lambda>n. n < 4) 0xFFFFFFFF ?w1 = None"
    by (rule waitAvailable_forever)
  then show ?thesis
    by (simp add: readRegisters_def start Let_def)
qed

end
